theory Spec2Isabelle
  imports Complex_Main "HOL-Library.Sublist" "HOL-Library.AList" "HOL-Library.Multiset"
begin

section \<open>Python strings\<close>

text \<open>
  The backend is a Python program.  A Python \<open>str\<close> is modelled as a \<^typ>\<open>string\<close> whose
  characters are the code points below 256; the character classes below are Python's on
  that range (\<open>str.isspace\<close>, \<open>str.isdigit\<close>, \<open>str.lower\<close>).
\<close>

definition py_isspace :: "char \<Rightarrow> bool" where
  "py_isspace c = ((of_char c :: nat) \<in> {9, 10, 11, 12, 13, 28, 29, 30, 31, 32, 133, 160})"

definition is_decimal :: "char \<Rightarrow> bool" where
  "is_decimal c = (48 \<le> (of_char c :: nat) \<and> (of_char c :: nat) \<le> 57)"

text \<open>\<open>c.isdigit()\<close> also holds for the superscripts 1, 2 and 3, which \<open>int()\<close> refuses.\<close>

definition py_isdigit :: "char \<Rightarrow> bool" where
  "py_isdigit c = (is_decimal c \<or> (of_char c :: nat) \<in> {178, 179, 185})"

definition lower_char :: "char \<Rightarrow> char" where
  "lower_char c =
     (let n = (of_char c :: nat)
      in if (65 \<le> n \<and> n \<le> 90) \<or> (192 \<le> n \<and> n \<le> 222 \<and> n \<noteq> 215)
         then char_of (n + 32) else c)"

definition py_lower :: "string \<Rightarrow> string" where
  "py_lower s = map lower_char s"

definition py_strip :: "string \<Rightarrow> string" where
  "py_strip s = rev (dropWhile py_isspace (rev (dropWhile py_isspace s)))"

text \<open>\<open>sub in s\<close> on two strings.\<close>

fun py_contains :: "string \<Rightarrow> string \<Rightarrow> bool" where
  "py_contains [] sub = (sub = [])"
| "py_contains (c # cs) sub = (prefix sub (c # cs) \<or> py_contains cs sub)"

text \<open>
  \<open>s.split(sep)\<close> for a non-empty separator: the scan goes left to right and the
  occurrences do not overlap.  \<open>skip\<close> counts the characters of a separator that was just
  recognised and is still to be passed over.
\<close>

fun split_scan :: "string \<Rightarrow> nat \<Rightarrow> string \<Rightarrow> string \<Rightarrow> string list" where
  "split_scan sep skip acc [] = [rev acc]"
| "split_scan sep (Suc k) acc (c # cs) = split_scan sep k acc cs"
| "split_scan sep 0 acc (c # cs) =
     (if prefix sep (c # cs) then rev acc # split_scan sep (length sep - 1) [] cs
      else split_scan sep 0 (c # acc) cs)"

definition py_split :: "string \<Rightarrow> string \<Rightarrow> string list" where
  "py_split s sep = split_scan sep 0 [] s"

fun py_join :: "string \<Rightarrow> string list \<Rightarrow> string" where
  "py_join sep [] = []"
| "py_join sep [x] = x"
| "py_join sep (x # y # ys) = x @ sep @ py_join sep (y # ys)"

text \<open>\<open>s.replace(old, new)\<close> for a non-empty \<open>old\<close>.\<close>

definition py_replace :: "string \<Rightarrow> string \<Rightarrow> string \<Rightarrow> string" where
  "py_replace s old new = py_join new (py_split s old)"

text \<open>\<open>s.find(c)\<close> and \<open>s.rfind(c)\<close> for a one-character \<open>c\<close>: an index, or -1.\<close>

fun find_from :: "nat \<Rightarrow> char \<Rightarrow> string \<Rightarrow> int" where
  "find_from i c [] = -1"
| "find_from i c (x # xs) = (if x = c then int i else find_from (Suc i) c xs)"

definition py_find :: "string \<Rightarrow> char \<Rightarrow> int" where
  "py_find s c = find_from 0 c s"

fun rfind_from :: "nat \<Rightarrow> int \<Rightarrow> char \<Rightarrow> string \<Rightarrow> int" where
  "rfind_from i best c [] = best"
| "rfind_from i best c (x # xs) = rfind_from (Suc i) (if x = c then int i else best) c xs"

definition py_rfind :: "string \<Rightarrow> char \<Rightarrow> int" where
  "py_rfind s c = rfind_from 0 (-1) c s"

text \<open>The slice \<open>s[start:end]\<close> for \<open>start \<ge> 0\<close> and \<open>end \<ge> 0\<close>.\<close>

definition py_slice :: "'a list \<Rightarrow> int \<Rightarrow> int \<Rightarrow> 'a list" where
  "py_slice s start end = drop (nat start) (take (nat end) s)"

subsection \<open>Numbers as text\<close>

definition digit_char :: "nat \<Rightarrow> char" where
  "digit_char d = char_of (48 + d)"

function str_nat :: "nat \<Rightarrow> string" where
  "str_nat n = (if n < 10 then [digit_char n] else str_nat (n div 10) @ [digit_char (n mod 10)])"
  by pat_completeness auto
termination
  by (relation "measure (\<lambda>n. n)") auto

declare str_nat.simps [simp del]

datatype py_exc =
  AttributeError | TypeError | KeyError | ValueError | IndexError | OSError | StopIteration

definition bind_exc :: "py_exc + 'a \<Rightarrow> ('a \<Rightarrow> py_exc + 'b) \<Rightarrow> py_exc + 'b" where
  "bind_exc r f = (case r of Inl e \<Rightarrow> Inl e | Inr x \<Rightarrow> f x)"

text \<open>
  CPython (3.11 and later) refuses to convert between \<open>int\<close> and decimal text beyond
  4300 digits, in both directions, with a \<open>ValueError\<close>.
\<close>

definition max_str_digits :: nat where
  "max_str_digits = 4300"

text \<open>\<open>str(n)\<close> for an integer.\<close>

definition py_str_int :: "int \<Rightarrow> py_exc + string" where
  "py_str_int n =
     (let digits = str_nat (nat \<bar>n\<bar>)
      in if length digits > max_str_digits then Inl ValueError
         else Inr (if n < 0 then CHR ''-'' # digits else digits))"

definition digit_val :: "char \<Rightarrow> nat" where
  "digit_val c = (of_char c :: nat) - 48"

text \<open>\<open>int(s)\<close> on a string made of \<open>isdigit\<close> characters: a superscript raises.\<close>

definition py_int :: "string \<Rightarrow> py_exc + nat" where
  "py_int s =
     (if s \<noteq> [] \<and> list_all is_decimal s \<and> length s \<le> max_str_digits
      then Inr (foldl (\<lambda>a c. 10 * a + digit_val c) 0 s)
      else Inl ValueError)"

section \<open>JSON values as Python objects\<close>

text \<open>
  What \<open>json.loads\<close> returns: \<open>None\<close>, a \<open>bool\<close>, an \<open>int\<close>, a \<open>float\<close> (held as the
  rational it denotes), a \<open>str\<close>, a \<open>list\<close>, or a \<open>dict\<close> with string keys.  A dict keeps
  its keys in insertion order and holds each key once, so it is an association list
  with distinct keys.
\<close>

datatype json =
    JNull
  | JBool bool
  | JInt int
  | JFloat rat
  | JStr string
  | JArr "json list"
  | JObj "(string \<times> json) list"

text \<open>Truth value of an object, as \<open>if x:\<close> and \<open>not x\<close> read it.\<close>

fun py_truthy :: "json \<Rightarrow> bool" where
  "py_truthy JNull = False"
| "py_truthy (JBool b) = b"
| "py_truthy (JInt n) = (n \<noteq> 0)"
| "py_truthy (JFloat q) = (q \<noteq> 0)"
| "py_truthy (JStr s) = (s \<noteq> [])"
| "py_truthy (JArr xs) = (xs \<noteq> [])"
| "py_truthy (JObj kvs) = (kvs \<noteq> [])"

text \<open>\<open>key in x\<close> with a string on the left.\<close>

fun py_in :: "string \<Rightarrow> json \<Rightarrow> py_exc + bool" where
  "py_in key (JObj kvs) = Inr (map_of kvs key \<noteq> None)"
| "py_in key (JArr xs) = Inr (JStr key \<in> set xs)"
| "py_in key (JStr s) = Inr (py_contains s key)"
| "py_in key _ = Inl TypeError"

text \<open>\<open>x[key]\<close> with a string key.\<close>

fun py_getitem :: "json \<Rightarrow> string \<Rightarrow> py_exc + json" where
  "py_getitem (JObj kvs) key = (case map_of kvs key of None \<Rightarrow> Inl KeyError | Some v \<Rightarrow> Inr v)"
| "py_getitem _ key = Inl TypeError"

text \<open>\<open>x.get(key, default)\<close>: only a dict has the method.\<close>

fun py_get :: "json \<Rightarrow> string \<Rightarrow> json \<Rightarrow> py_exc + json" where
  "py_get (JObj kvs) key dflt = (case map_of kvs key of None \<Rightarrow> Inr dflt | Some v \<Rightarrow> Inr v)"
| "py_get _ key dflt = Inl AttributeError"

text \<open>\<open>x[key] = v\<close> with a string key; the updated object is returned.\<close>

fun py_setitem :: "json \<Rightarrow> string \<Rightarrow> json \<Rightarrow> py_exc + json" where
  "py_setitem (JObj kvs) key v = Inr (JObj (AList.update key v kvs))"
| "py_setitem _ key v = Inl TypeError"

text \<open>What \<open>for x in v\<close> runs over.\<close>

fun py_iter :: "json \<Rightarrow> py_exc + json list" where
  "py_iter (JArr xs) = Inr xs"
| "py_iter (JObj kvs) = Inr (map (\<lambda>kv. JStr (fst kv)) kvs)"
| "py_iter (JStr s) = Inr (map (\<lambda>c. JStr [c]) s)"
| "py_iter _ = Inl TypeError"

text \<open>\<open>x.lower()\<close>: only a string has the method.\<close>

fun py_lower_of :: "json \<Rightarrow> py_exc + string" where
  "py_lower_of (JStr s) = Inr (py_lower s)"
| "py_lower_of _ = Inl AttributeError"

text \<open>
  \<open>str(x)\<close>.  The text Python prints for a float, a list or a dict is not modelled: it is
  the parameter \<open>repr\<close>, and every result below holds whatever it is.
\<close>

fun py_str :: "(json \<Rightarrow> string) \<Rightarrow> json \<Rightarrow> py_exc + string" where
  "py_str repr (JStr s) = Inr s"
| "py_str repr (JInt n) = py_str_int n"
| "py_str repr (JBool b) = Inr (if b then ''True'' else ''False'')"
| "py_str repr JNull = Inr ''None''"
| "py_str repr v = Inr (repr v)"

section \<open>Monetary normalisation (\<open>extract_policy\<close>)\<close>

definition extract_number :: "(json \<Rightarrow> string) \<Rightarrow> json \<Rightarrow> py_exc + nat" where
  "extract_number repr val_str =
     (if \<not> py_truthy val_str then Inr 0
      else
        bind_exc (py_str repr val_str) (\<lambda>txt.
        let s = py_replace (py_strip txt) '','' '''' in
        bind_exc (if CHR ''.'' \<in> set s
                  then (case py_split s ''.'' of [] \<Rightarrow> Inl IndexError | x # _ \<Rightarrow> Inr x)
                  else Inr s)
          (\<lambda>s. let clean = filter py_isdigit s
                in if clean \<noteq> [] then py_int clean else Inr 0)))"

text \<open>The \<open>while len(dic) > 2\<close> loop: two characters at a time move to the front of \<open>groups\<close>.\<close>

function group_loop :: "string \<Rightarrow> string list \<Rightarrow> string list" where
  "group_loop dic groups =
     (if length dic > 2
      then group_loop (take (length dic - 2) dic) (drop (length dic - 2) dic # groups)
      else dic # groups)"
  by pat_completeness auto
termination
  by (relation "measure (\<lambda>(dic, groups). length dic)") auto

declare group_loop.simps [simp del]

definition format_indian_currency :: "int \<Rightarrow> py_exc + string" where
  "format_indian_currency n =
     bind_exc (py_str_int n) (\<lambda>s.
       if length s \<le> 3 then Inr s
       else
         let dic = take (length s - 3) s;
             last_3 = drop (length s - 3) s
         in Inr (py_join '','' (group_loop dic []) @ '','' @ last_3))"

text \<open>
  The loop over the components, with the running \<open>total_val\<close> and \<open>valid_components\<close>.
  A component that is kept has its \<open>value\<close> rewritten.
\<close>

fun components_loop ::
  "(json \<Rightarrow> string) \<Rightarrow> json list \<Rightarrow> int \<Rightarrow> json list \<Rightarrow> py_exc + (int \<times> json list)" where
  "components_loop repr [] total_val valid_components = Inr (total_val, valid_components)"
| "components_loop repr (cmpt # rest) total_val valid_components =
     (case py_get cmpt ''value'' (JStr ''0'') of Inl e \<Rightarrow> Inl e | Inr v \<Rightarrow>
      case extract_number repr v of Inl e \<Rightarrow> Inl e | Inr val \<Rightarrow>
      case py_get cmpt ''label'' (JStr '''') of Inl e \<Rightarrow> Inl e | Inr l \<Rightarrow>
      case py_lower_of l of Inl e \<Rightarrow> Inl e | Inr label \<Rightarrow>
        if val > 0 then
          if py_contains label ''%'' \<or> py_contains label ''percent''
          then components_loop repr rest total_val valid_components
          else
            case format_indian_currency (int val) of Inl e \<Rightarrow> Inl e | Inr shown \<Rightarrow>
            case py_setitem cmpt ''value'' (JStr shown) of
              Inl e \<Rightarrow> Inl e
            | Inr cmpt' \<Rightarrow>
                components_loop repr rest
                  (if py_contains label ''deductible'' then total_val - int val
                   else total_val + int val)
                  (valid_components @ [cmpt'])
        else components_loop repr rest total_val valid_components)"

text \<open>
  The block under \<open>CALCULATE TOTAL SUM INSURED\<close>: the list that was kept and the
  formatted total are written back into the document.
\<close>

definition recalc_sum_insured :: "(json \<Rightarrow> string) \<Rightarrow> json \<Rightarrow> py_exc + json" where
  "recalc_sum_insured repr data =
     bind_exc (py_in ''sum_insured'' data) (\<lambda>has_si.
       if \<not> has_si then Inr data
       else
         bind_exc (py_getitem data ''sum_insured'') (\<lambda>si.
         bind_exc (py_in ''components'' si) (\<lambda>has_components.
           if \<not> has_components then Inr data
           else
             bind_exc (py_getitem si ''components'') (\<lambda>components.
             bind_exc (py_iter components) (\<lambda>comps.
             bind_exc (components_loop repr comps 0 []) (\<lambda>(total_val, valid_components).
             bind_exc (py_setitem si ''components'' (JArr valid_components)) (\<lambda>si1.
             bind_exc (format_indian_currency total_val) (\<lambda>shown.
             bind_exc (py_setitem si1 ''total'' (JStr shown)) (\<lambda>si2.
               py_setitem data ''sum_insured'' si2)))))))))"

text \<open>A component whose lower-cased label holds a percent sign or the word \<open>percent\<close>.\<close>

definition percent_label :: "json \<Rightarrow> bool" where
  "percent_label c =
     (case py_get c ''label'' (JStr '''') of
        Inl e \<Rightarrow> False
      | Inr l \<Rightarrow>
          (case py_lower_of l of
             Inl e \<Rightarrow> False
           | Inr label \<Rightarrow> py_contains label ''%'' \<or> py_contains label ''percent''))"

text \<open>
  The body of the loop on one component: \<open>None\<close> when the component is passed over, or the
  signed amount that goes into the total with the component as it is kept.
\<close>

definition component_step :: "(json \<Rightarrow> string) \<Rightarrow> json \<Rightarrow> py_exc + (int \<times> json) option" where
  "component_step repr cmpt =
     (case py_get cmpt ''value'' (JStr ''0'') of Inl e \<Rightarrow> Inl e | Inr v \<Rightarrow>
      case extract_number repr v of Inl e \<Rightarrow> Inl e | Inr val \<Rightarrow>
      case py_get cmpt ''label'' (JStr '''') of Inl e \<Rightarrow> Inl e | Inr l \<Rightarrow>
      case py_lower_of l of Inl e \<Rightarrow> Inl e | Inr label \<Rightarrow>
        if val > 0 then
          if py_contains label ''%'' \<or> py_contains label ''percent'' then Inr None
          else
            case format_indian_currency (int val) of Inl e \<Rightarrow> Inl e | Inr shown \<Rightarrow>
            case py_setitem cmpt ''value'' (JStr shown) of
              Inl e \<Rightarrow> Inl e
            | Inr cmpt' \<Rightarrow>
                Inr (Some (if py_contains label ''deductible'' then - int val else int val, cmpt'))
        else Inr None)"

section \<open>The comparison endpoint: what follows the parsing (\<open>compare_policy\<close>)\<close>

text \<open>
  \<open>x[:n]\<close> and \<open>len(x)\<close>.  A slice of a dict raises as well (which exception depends on the
  Python version; every one of them ends the request the same way).
\<close>

fun py_slice_to :: "json \<Rightarrow> nat \<Rightarrow> py_exc + json" where
  "py_slice_to (JArr xs) n = Inr (JArr (take n xs))"
| "py_slice_to (JStr s) n = Inr (JStr (take n s))"
| "py_slice_to _ n = Inl TypeError"

fun py_len :: "json \<Rightarrow> py_exc + nat" where
  "py_len (JArr xs) = Inr (length xs)"
| "py_len (JStr s) = Inr (length s)"
| "py_len (JObj kvs) = Inr (length kvs)"
| "py_len _ = Inl TypeError"

text \<open>The block under \<open>Enforce cons >= pros logic\<close>.\<close>

definition enforce_pros_cons :: "json \<Rightarrow> py_exc + json" where
  "enforce_pros_cons result =
     bind_exc (py_in ''pros'' result) (\<lambda>has_pros.
       if \<not> has_pros then Inr result
       else
         bind_exc (py_in ''cons'' result) (\<lambda>has_cons.
           if \<not> has_cons then Inr result
           else
             bind_exc (py_getitem result ''pros'') (\<lambda>pros.
             bind_exc (py_slice_to pros 7) (\<lambda>pros7.
             bind_exc (py_setitem result ''pros'' pros7) (\<lambda>result1.
             bind_exc (py_getitem result1 ''cons'') (\<lambda>cons.
             bind_exc (py_slice_to cons 7) (\<lambda>cons7.
             bind_exc (py_setitem result1 ''cons'' cons7) (\<lambda>result2.
             bind_exc (py_getitem result2 ''pros'') (\<lambda>pros2.
             bind_exc (py_len pros2) (\<lambda>len_pros.
             bind_exc (py_getitem result2 ''cons'') (\<lambda>cons2.
             bind_exc (py_len cons2) (\<lambda>len_cons.
               if len_pros > len_cons
               then bind_exc (py_slice_to pros2 len_cons) (\<lambda>pros3.
                      py_setitem result2 ''pros'' pros3)
               else Inr result2))))))))))))"

subsection \<open>Ranking by claims paid ratio\<close>

text \<open>
  The rows of \<open>company_performance_ratios.csv\<close> as \<open>csv.reader\<close> yields them are an input,
  and so is \<open>float\<close> on a string (\<open>None\<close> when it raises).  A float is held as the
  rational it denotes; the table's values are taken to be finite numbers.
\<close>

definition clean_company :: "string \<Rightarrow> string" where
  "clean_company s =
     py_strip (py_replace (py_replace s ''general insurance'' '''') ''insurance'' '''')"

definition csr_add_row ::
  "(string \<Rightarrow> rat option) \<Rightarrow> (string \<times> rat) list \<Rightarrow> string list \<Rightarrow> (string \<times> rat) list" where
  "csr_add_row float_of csr_map row =
     (case row of
        name # ratio # more \<Rightarrow>
          (let name_key = clean_company (py_lower (py_strip name));
               ratio_str = py_strip (py_replace ratio ''%'' '''')
           in case float_of ratio_str of
                Some v \<Rightarrow> AList.update name_key v csr_map
              | None \<Rightarrow> csr_map)
      | _ \<Rightarrow> csr_map)"

definition build_csr_map ::
  "(string \<Rightarrow> rat option) \<Rightarrow> string list list \<Rightarrow> (string \<times> rat) list" where
  "build_csr_map float_of rows = foldl (csr_add_row float_of) [] rows"

definition get_csr_score :: "(string \<times> rat) list \<Rightarrow> json \<Rightarrow> py_exc + rat" where
  "get_csr_score csr_map rec =
     bind_exc (py_get rec ''company'' (JStr '''')) (\<lambda>company.
     bind_exc (py_lower_of company) (\<lambda>lowered.
       let c_name = clean_company lowered
       in case map_of csr_map c_name of
            Some v \<Rightarrow> Inr v
          | None \<Rightarrow>
              (case find (\<lambda>kv. py_contains c_name (fst kv) \<or> py_contains (fst kv) c_name) csr_map of
                 Some kv \<Rightarrow> Inr (snd kv)
               | None \<Rightarrow> Inr 0)))"

fun collect_exc :: "(py_exc + 'a) list \<Rightarrow> py_exc + 'a list" where
  "collect_exc [] = Inr []"
| "collect_exc (r # rs) =
     (case r of
        Inl e \<Rightarrow> Inl e
      | Inr x \<Rightarrow> (case collect_exc rs of Inl e \<Rightarrow> Inl e | Inr xs \<Rightarrow> Inr (x # xs)))"

text \<open>
  \<open>recs.sort(key=get_csr_score, reverse=True)\<close>: the keys are computed first, one per
  element and in order (an exception there leaves the list as it was); the sort is
  stable, also with \<open>reverse=True\<close>.
\<close>

definition sort_by_csr :: "(string \<times> rat) list \<Rightarrow> json list \<Rightarrow> py_exc + json list" where
  "sort_by_csr csr_map recs =
     bind_exc (collect_exc (map (get_csr_score csr_map) recs)) (\<lambda>keys.
       Inr (map snd (sort_key (\<lambda>p. - fst p) (zip keys recs))))"

text \<open>
  The block under \<open>FORCE SORT BY CLAIMS PAID RATIO\<close>.  \<open>csv_rows\<close> is \<open>None\<close> when the file
  cannot be opened; fewer than two rows make \<open>next(reader)\<close> raise.  Every exception is
  caught and printed, and \<open>result\<close> is returned as it stands.
\<close>

definition force_sort_attempt ::
  "(string \<Rightarrow> rat option) \<Rightarrow> string list list option \<Rightarrow> json \<Rightarrow> py_exc + json" where
  "force_sort_attempt float_of csv_rows result =
     (case csv_rows of
        None \<Rightarrow> Inl OSError
      | Some rows \<Rightarrow>
          (case rows of
             header1 # header2 # data_rows \<Rightarrow>
               (let csr_map = build_csr_map float_of data_rows in
                bind_exc (py_in ''recommendations'' result) (\<lambda>has_recs.
                  if \<not> has_recs then Inr result
                  else
                    bind_exc (py_getitem result ''recommendations'') (\<lambda>recs.
                      case recs of
                        JArr rs \<Rightarrow>
                          bind_exc (sort_by_csr csr_map rs) (\<lambda>sorted_recs.
                            py_setitem result ''recommendations'' (JArr sorted_recs))
                      | _ \<Rightarrow> Inr result)))
           | _ \<Rightarrow> Inl StopIteration))"

definition force_sort ::
  "(string \<Rightarrow> rat option) \<Rightarrow> string list list option \<Rightarrow> json \<Rightarrow> json" where
  "force_sort float_of csv_rows result =
     (case force_sort_attempt float_of csv_rows result of
        Inl e \<Rightarrow> result
      | Inr result' \<Rightarrow> result')"

text \<open>
  The last two blocks of the endpoint in sequence, from \<open>Enforce cons >= pros logic\<close> to
  \<open>return result\<close>.
\<close>

definition compare_finish ::
  "(string \<Rightarrow> rat option) \<Rightarrow> string list list option \<Rightarrow> json \<Rightarrow> py_exc + json" where
  "compare_finish float_of csv_rows result =
     bind_exc (enforce_pros_cons result) (\<lambda>result1.
       Inr (force_sort float_of csv_rows result1))"



section \<open>The fallback invoker (\<open>generate_content_with_fallback\<close>)\<close>

definition MODEL_CANDIDATES :: "string list" where
  "MODEL_CANDIDATES =
     [''gemini-2.0-flash-exp'', ''gemini-1.5-pro'', ''gemini-1.5-flash'', ''gemini-2.5-flash'',
      ''gemini-2.5-pro'', ''gemini-3.0-flash'', ''gemini-2.5-flash-lite'']"

text \<open>The values a call site passes as keyword arguments, and the JSON format hint.\<close>

datatype config_value = ConfigText string | ConfigNumber rat | ConfigTools "string list"

text \<open>
  \<open>config_params\<close> as it is built for every attempt: the format hint, then the keyword
  arguments over it, and the hint taken out again when \<open>tools\<close> is among the keys.
\<close>

definition build_config :: "(string \<times> config_value) list \<Rightarrow> (string \<times> config_value) list" where
  "build_config kwargs =
     (let config_params = [(''response_mime_type'', ConfigText ''application/json'')];
          config_params = (if kwargs \<noteq> []
                           then fold (\<lambda>kv. AList.update (fst kv) (snd kv)) kwargs config_params
                           else config_params)
      in if map_of config_params ''tools'' \<noteq> None
         then AList.delete ''response_mime_type'' config_params
         else config_params)"

text \<open>
  The generative backend is outside the program.  One call is
  \<open>backend earlier model contents config\<close>: \<open>earlier\<close> lists the models this invocation
  has already tried, in order, so that the outcome of a call may depend on what went
  before; the outcome is the response, or the exception the call (or the construction of
  its configuration) raises.
\<close>

datatype 'e invoke_error = Reraised 'e | All_models_failed

text \<open>
  The \<open>for\<close> loop with \<open>last_exception\<close>; \<open>tried\<close> records the models a request was issued
  to.  After the loop: \<open>raise last_exception or Exception("All models failed")\<close>.
\<close>

fun fallback_loop ::
  "(string list \<Rightarrow> string \<Rightarrow> 'c \<Rightarrow> (string \<times> config_value) list \<Rightarrow> 'e + 'r) \<Rightarrow>
   'c \<Rightarrow> (string \<times> config_value) list \<Rightarrow> string list \<Rightarrow> 'e option \<Rightarrow> string list \<Rightarrow>
   ('e invoke_error + 'r) \<times> string list" where
  "fallback_loop backend contents kwargs [] last_exception tried =
     (case last_exception of
        Some e \<Rightarrow> (Inl (Reraised e), tried)
      | None \<Rightarrow> (Inl All_models_failed, tried))"
| "fallback_loop backend contents kwargs (model # rest) last_exception tried =
     (case backend tried model contents (build_config kwargs) of
        Inr response \<Rightarrow> (Inr response, tried @ [model])
      | Inl e \<Rightarrow> fallback_loop backend contents kwargs rest (Some e) (tried @ [model]))"

definition generate_content_with_fallback ::
  "(string list \<Rightarrow> string \<Rightarrow> 'c \<Rightarrow> (string \<times> config_value) list \<Rightarrow> 'e + 'r) \<Rightarrow>
   string list \<Rightarrow> 'c \<Rightarrow> (string \<times> config_value) list \<Rightarrow> ('e invoke_error + 'r) \<times> string list" where
  "generate_content_with_fallback backend candidates contents kwargs =
     fallback_loop backend contents kwargs candidates None []"

text \<open>The outcome of the attempt at position \<open>i\<close> of the candidate list.\<close>

definition attempt_outcome ::
  "(string list \<Rightarrow> string \<Rightarrow> 'c \<Rightarrow> (string \<times> config_value) list \<Rightarrow> 'e + 'r) \<Rightarrow>
   string list \<Rightarrow> 'c \<Rightarrow> (string \<times> config_value) list \<Rightarrow> nat \<Rightarrow> 'e + 'r" where
  "attempt_outcome backend candidates contents kwargs i =
     backend (take i candidates) (candidates ! i) contents (build_config kwargs)"

section \<open>The fuzzy reference matcher (\<open>match_policy_in_csv\<close>)\<close>







section \<open>Dates (\<open>parse_date\<close>)\<close>

text \<open>
  \<open>datetime.strptime\<close> turns a format into a regular expression, matches it at the start
  of the text with \<open>re.IGNORECASE\<close>, refuses text that is left over, and then builds the
  date, which checks the calendar.  The expressions of the directives, as \<open>_strptime\<close>
  has them:
  \<^item> \<open>%d\<close> is \<open>3[0-1]|[1-2]\d|0[1-9]|[1-9]| [1-9]\<close>;
  \<^item> \<open>%m\<close> is \<open>1[0-2]|0[1-9]|[1-9]\<close>;
  \<^item> \<open>%Y\<close> is \<open>\d\d\d\d\<close>;
  \<^item> \<open>%b\<close> is \<open>jan|feb|...|dec\<close> (the C locale);
  \<^item> a run of white space in the format is \<open>\s+\<close>; any other character stands for itself.
  Only these four directives occur in the program; another one matches nothing here.
\<close>

datatype fmt_item = FDay | FMonth | FYear | FMonthName | FLit char | FSpaces | FOther char

fun compile_format :: "bool \<Rightarrow> string \<Rightarrow> fmt_item list" where
  "compile_format in_space [] = []"
| "compile_format in_space [c] =
     (if py_isspace c then (if in_space then [] else [FSpaces]) else [FLit c])"
| "compile_format in_space (c # d # cs) =
     (if c = CHR ''%''
      then (if d = CHR ''d'' then FDay else if d = CHR ''m'' then FMonth
            else if d = CHR ''Y'' then FYear else if d = CHR ''b'' then FMonthName
            else FOther d) # compile_format False cs
      else if py_isspace c
      then (if in_space then compile_format True (d # cs)
            else FSpaces # compile_format True (d # cs))
      else FLit c # compile_format False (d # cs))"

definition month_names :: "string list" where
  "month_names = [''jan'', ''feb'', ''mar'', ''apr'', ''may'', ''jun'',
                  ''jul'', ''aug'', ''sep'', ''oct'', ''nov'', ''dec'']"

text \<open>The numbers of the names equal to \<open>key\<close>, counting from \<open>i\<close>.\<close>

fun name_numbers :: "string list \<Rightarrow> nat \<Rightarrow> string \<Rightarrow> nat list" where
  "name_numbers [] i key = []"
| "name_numbers (name # names) i key =
     (if name = key then [i] else []) @ name_numbers names (Suc i) key"

definition in_range :: "char \<Rightarrow> char \<Rightarrow> char \<Rightarrow> bool" where
  "in_range lo hi c = ((of_char lo :: nat) \<le> of_char c \<and> (of_char c :: nat) \<le> of_char hi)"

text \<open>
  The ways one item matches at the start of a text, in the order the regular expression
  engine tries them: the value read and the rest of the text.
\<close>

fun item_alts :: "fmt_item \<Rightarrow> string \<Rightarrow> (nat \<times> string) list" where
  "item_alts FDay s =
     (case s of
        a # b # rest \<Rightarrow>
          (if a = CHR ''3'' \<and> in_range CHR ''0'' CHR ''1'' b then [(30 + digit_val b, rest)] else []) @
          (if in_range CHR ''1'' CHR ''2'' a \<and> is_decimal b
           then [(10 * digit_val a + digit_val b, rest)] else []) @
          (if a = CHR ''0'' \<and> in_range CHR ''1'' CHR ''9'' b then [(digit_val b, rest)] else []) @
          (if in_range CHR ''1'' CHR ''9'' a then [(digit_val a, b # rest)] else []) @
          (if a = CHR '' '' \<and> in_range CHR ''1'' CHR ''9'' b then [(digit_val b, rest)] else [])
      | [a] \<Rightarrow> (if in_range CHR ''1'' CHR ''9'' a then [(digit_val a, [])] else [])
      | [] \<Rightarrow> [])"
| "item_alts FMonth s =
     (case s of
        a # b # rest \<Rightarrow>
          (if a = CHR ''1'' \<and> in_range CHR ''0'' CHR ''2'' b then [(10 + digit_val b, rest)] else []) @
          (if a = CHR ''0'' \<and> in_range CHR ''1'' CHR ''9'' b then [(digit_val b, rest)] else []) @
          (if in_range CHR ''1'' CHR ''9'' a then [(digit_val a, b # rest)] else [])
      | [a] \<Rightarrow> (if in_range CHR ''1'' CHR ''9'' a then [(digit_val a, [])] else [])
      | [] \<Rightarrow> [])"
| "item_alts FYear s =
     (case s of
        a # b # c # d # rest \<Rightarrow>
          (if is_decimal a \<and> is_decimal b \<and> is_decimal c \<and> is_decimal d
           then [(1000 * digit_val a + 100 * digit_val b + 10 * digit_val c + digit_val d, rest)]
           else [])
      | _ \<Rightarrow> [])"
| "item_alts FMonthName s =
     (case s of
        a # b # c # rest \<Rightarrow> map (\<lambda>i. (i, rest)) (name_numbers month_names 1 (py_lower [a, b, c]))
      | _ \<Rightarrow> [])"
| "item_alts (FLit x) s =
     (case s of
        a # rest \<Rightarrow> (if lower_char a = lower_char x then [(0, rest)] else [])
      | [] \<Rightarrow> [])"
| "item_alts FSpaces s =
     map (\<lambda>k. (0, drop k s)) (rev [1..<Suc (length (takeWhile py_isspace s))])"
| "item_alts (FOther x) s = []"

record date_fields =
  found_d :: nat
  found_m :: nat
  found_Y :: nat

definition store_item :: "fmt_item \<Rightarrow> nat \<Rightarrow> date_fields \<Rightarrow> date_fields" where
  "store_item item v found =
     (case item of
        FDay \<Rightarrow> found\<lparr>found_d := v\<rparr>
      | FMonth \<Rightarrow> found\<lparr>found_m := v\<rparr>
      | FMonthName \<Rightarrow> found\<lparr>found_m := v\<rparr>
      | FYear \<Rightarrow> found\<lparr>found_Y := v\<rparr>
      | _ \<Rightarrow> found)"

text \<open>Every match of the whole expression, the engine's first choice first.\<close>

fun match_items :: "fmt_item list \<Rightarrow> string \<Rightarrow> date_fields \<Rightarrow> (date_fields \<times> string) list" where
  "match_items [] s found = [(found, s)]"
| "match_items (item # items) s found =
     concat (map (\<lambda>alt. match_items items (snd alt) (store_item item (fst alt) found))
               (item_alts item s))"

record date =
  year :: nat
  month :: nat
  day :: nat

definition is_leap :: "nat \<Rightarrow> bool" where
  "is_leap y = (y mod 4 = 0 \<and> (y mod 100 \<noteq> 0 \<or> y mod 400 = 0))"

definition days_in_month :: "nat \<Rightarrow> nat \<Rightarrow> nat" where
  "days_in_month y m =
     (if m = 2 then (if is_leap y then 29 else 28)
      else if m = 4 \<or> m = 6 \<or> m = 9 \<or> m = 11 then 30 else 31)"

text \<open>
  \<open>datetime.strptime(s, format)\<close>, \<open>None\<close> for its \<open>ValueError\<close>: no match, text left over,
  or a date the calendar does not have (year 0 included).  The fields start at the
  defaults 1900-01-01; each of the five formats sets all three.
\<close>

definition strptime :: "string \<Rightarrow> string \<Rightarrow> date option" where
  "strptime s format =
     (case match_items (compile_format False format) s
              \<lparr>found_d = 1, found_m = 1, found_Y = 1900\<rparr> of
        [] \<Rightarrow> None
      | (found, rest) # others \<Rightarrow>
          if rest \<noteq> [] then None
          else if 1 \<le> found_Y found \<and> 1 \<le> found_m found \<and> found_m found \<le> 12 \<and>
                  1 \<le> found_d found \<and> found_d found \<le> days_in_month (found_Y found) (found_m found)
          then Some \<lparr>year = found_Y found, month = found_m found, day = found_d found\<rparr>
          else None)"

definition date_formats :: "string list" where
  "date_formats = [''%d/%m/%Y'', ''%d-%m-%Y'', ''%Y-%m-%d'', ''%d-%b-%Y'', ''%d %b %Y'']"

text \<open>The loop of \<open>parse_date\<close> over the formats: the first that parses wins.\<close>

fun try_formats :: "string \<Rightarrow> string list \<Rightarrow> date option" where
  "try_formats s [] = None"
| "try_formats s (fmt # fmts) =
     (case strptime s fmt of Some d \<Rightarrow> Some d | None \<Rightarrow> try_formats s fmts)"

definition parse_date :: "string \<Rightarrow> date option" where
  "parse_date date_str = try_formats (py_strip date_str) date_formats"

text \<open>\<open>parse_date(x)\<close> on any object: \<open>x.strip()\<close> needs a string.\<close>

fun parse_date_of :: "json \<Rightarrow> py_exc + date option" where
  "parse_date_of (JStr s) = Inr (parse_date s)"
| "parse_date_of _ = Inl AttributeError"

section \<open>Age recomputation (\<open>extract_policy\<close>)\<close>

text \<open>\<open>(a, b) < (c, d)\<close> on tuples.\<close>

definition tuple_less :: "nat \<times> nat \<Rightarrow> nat \<times> nat \<Rightarrow> bool" where
  "tuple_less p q = (fst p < fst q \<or> (fst p = fst q \<and> snd p < snd q))"

definition precise_age :: "date \<Rightarrow> date \<Rightarrow> int" where
  "precise_age today dob_date =
     int (year today) - int (year dob_date)
       - (if tuple_less (month today, day today) (month dob_date, day dob_date) then 1 else 0)"

text \<open>The body of the loop over \<open>policy_holders\<close>; \<open>today\<close> is \<open>datetime.now()\<close>.\<close>

definition recalc_person :: "date \<Rightarrow> json \<Rightarrow> py_exc + json" where
  "recalc_person today person =
     bind_exc (py_get person ''dob'' (JStr '''')) (\<lambda>dob_str.
       if \<not> py_truthy dob_str then Inr person
       else
         bind_exc (parse_date_of dob_str) (\<lambda>dob_date.
           case dob_date of
             None \<Rightarrow> Inr person
           | Some d \<Rightarrow>
               bind_exc (py_str_int (precise_age today d)) (\<lambda>age.
                 py_setitem person ''age'' (JStr age))))"

text \<open>The block under \<open>RECALCULATE AGES PRECISELY\<close>.\<close>

definition recalc_ages :: "date \<Rightarrow> json \<Rightarrow> py_exc + json" where
  "recalc_ages today data =
     bind_exc (py_in ''policy_holders'' data) (\<lambda>has_holders.
       if \<not> has_holders then Inr data
       else
         bind_exc (py_getitem data ''policy_holders'') (\<lambda>holders.
           case holders of
             JArr persons \<Rightarrow>
               bind_exc (collect_exc (map (recalc_person today) persons)) (\<lambda>persons'.
                 py_setitem data ''policy_holders'' (JArr persons'))
           | _ \<Rightarrow> Inr data))"

section \<open>Tenure (\<open>compare_policy\<close>)\<close>

text \<open>The block under \<open>Calculate Policy Tenure from Inception Date\<close>.\<close>

definition calculate_tenure :: "date \<Rightarrow> json \<Rightarrow> py_exc + string" where
  "calculate_tenure today data =
     bind_exc (py_get data ''policy_details'' (JObj [])) (\<lambda>details.
     bind_exc (py_get details ''start_date'' (JStr '''')) (\<lambda>inception_date_str.
       if \<not> py_truthy inception_date_str then Inr ''Unknown''
       else
         bind_exc (parse_date_of inception_date_str) (\<lambda>inception_date.
           case inception_date of
             None \<Rightarrow> Inr ''Unknown''
           | Some d \<Rightarrow>
               let years = int (year today) - int (year d);
                   months = int (month today) - int (month d);
                   years = (if months < 0 then years - 1 else years);
                   months = (if months < 0 then months + 12 else months)
               in bind_exc (py_str_int years) (\<lambda>years_text.
                  bind_exc (py_str_int months) (\<lambda>months_text.
                    Inr (years_text @ '' Years '' @ months_text @ '' Months''))))))"

text \<open>\<open>str(n)\<close> where the digit limit is not reached.\<close>

definition decimal_text :: "int \<Rightarrow> string" where
  "decimal_text n = (if n < 0 then CHR ''-'' # str_nat (nat \<bar>n\<bar>) else str_nat (nat \<bar>n\<bar>))"

text \<open>
  The rule as the specification words it, to be compared with \<open>calculate_tenure\<close>: the
  months are the calendar-month difference, and one year is borrowed exactly when the
  day-of-month difference is negative.
\<close>

definition tenure_by_day_borrow :: "date \<Rightarrow> date \<Rightarrow> string" where
  "tenure_by_day_borrow today d =
     (let months = int (month today) - int (month d);
          years = int (year today) - int (year d)
                    - (if int (day today) - int (day d) < 0 then 1 else 0)
      in decimal_text years @ '' Years '' @ decimal_text months @ '' Months'')"

section \<open>From the model's text to a document (\<open>extract_policy\<close>)\<close>

text \<open>
  \<open>json.loads\<close> is outside the program and is an input here: on a text it returns a value,
  raises \<open>json.JSONDecodeError\<close>, or raises something else (a \<open>RecursionError\<close> on deep
  nesting, a \<open>ValueError\<close> on an integer beyond the digit limit).
\<close>

datatype loads_result = Loaded json | JSONDecodeError | LoadsRaises py_exc

text \<open>\<open>xs[i]\<close> on a list.\<close>

definition py_index :: "'a list \<Rightarrow> nat \<Rightarrow> py_exc + 'a" where
  "py_index xs i = (if i < length xs then Inr (xs ! i) else Inl IndexError)"

text \<open>Lines 204 to 208: the text is stripped and a code fence, if any, is taken off.\<close>

definition strip_fence :: "string \<Rightarrow> py_exc + string" where
  "strip_fence raw =
     (let text = py_strip raw
      in if py_contains text ''```json''
         then bind_exc (py_index (py_split text ''```json'') 1) (\<lambda>inner.
              bind_exc (py_index (py_split inner ''```'') 0) (\<lambda>inner.
                Inr (py_strip inner)))
         else if py_contains text ''```''
         then bind_exc (py_index (py_split text ''```'') 1) (\<lambda>inner.
              bind_exc (py_index (py_split inner ''```'') 0) (\<lambda>inner.
                Inr (py_strip inner)))
         else Inr text)"

text \<open>
  The inner \<open>try\<close> of both endpoints: the text from the first \<open>{\<close> to the last \<open>}\<close> is
  decoded; \<open>None\<close> when there is no \<open>{\<close> or when the decoder raises anything.
\<close>

definition salvage_braces :: "(string \<Rightarrow> loads_result) \<Rightarrow> string \<Rightarrow> json option" where
  "salvage_braces loads text =
     (let start = py_find text CHR ''{'';
          end = py_rfind text CHR ''}'' + 1
      in if start \<noteq> - 1 \<and> end \<noteq> - 1
         then (case loads (py_slice text start end) of
                 Loaded v \<Rightarrow> Some v
               | _ \<Rightarrow> None)
         else None)"

definition default_document :: json where
  "default_document =
     JObj [(''company'', JStr ''Unknown''),
           (''plan'', JStr ''Unknown''),
           (''premium'', JStr ''0''),
           (''coverage'', JStr ''0''),
           (''policy_details'', JObj [(''start_date'', JStr ''''), (''vintage'', JStr ''Unknown'')]),
           (''sum_insured'', JObj [(''total'', JStr ''0''), (''components'', JArr [])]),
           (''policy_holders'', JArr []),
           (''features_found'', JObj []),
           (''comprehensive_findings'', JStr ''Could not extract data.'')]"

text \<open>Lines 204 to 236: the value of \<open>data\<close> when the post-processing starts.\<close>

definition salvage :: "(string \<Rightarrow> loads_result) \<Rightarrow> string \<Rightarrow> py_exc + json" where
  "salvage loads raw =
     bind_exc (strip_fence raw) (\<lambda>text.
       case loads text of
         Loaded v \<Rightarrow> Inr v
       | LoadsRaises e \<Rightarrow> Inl e
       | JSONDecodeError \<Rightarrow>
           (case salvage_braces loads text of
              Some v \<Rightarrow> Inr v
            | None \<Rightarrow> Inr default_document))"

datatype http_error = HTTPException nat

text \<open>
  Lines 202 to 312, from the response of the model to what the endpoint returns:
  \<open>response_text\<close> is \<open>response.text\<close>, which is \<open>None\<close> when the response has no text.  Every
  exception ends in \<open>HTTPException(status_code=500)\<close>.
\<close>

definition extract_policy_response ::
  "(string \<Rightarrow> loads_result) \<Rightarrow> (json \<Rightarrow> string) \<Rightarrow> date \<Rightarrow> string option \<Rightarrow> http_error + json" where
  "extract_policy_response loads repr today response_text =
     (case response_text of
        None \<Rightarrow> Inl (HTTPException 500)
      | Some raw \<Rightarrow>
          (case bind_exc (salvage loads raw) (\<lambda>data.
                  bind_exc (recalc_ages today data) (\<lambda>data.
                    recalc_sum_insured repr data)) of
             Inl e \<Rightarrow> Inl (HTTPException 500)
           | Inr data \<Rightarrow> Inr data))"

section \<open>From the model's text to a result (\<open>compare_policy\<close>)\<close>

text \<open>\<open>list(x.keys())\<close>: only a dict has the method.\<close>

fun py_keys :: "json \<Rightarrow> py_exc + string list" where
  "py_keys (JObj kvs) = Inr (map fst kvs)"
| "py_keys _ = Inl AttributeError"

text \<open>
  \<open>round(x, 1)\<close> on a float: to the nearest tenth, a tie going to the even digit.  The
  arithmetic is the exact one on the rationals the floats denote.
\<close>

definition py_round1 :: "rat \<Rightarrow> rat" where
  "py_round1 q =
     (let x = q * 10;
          f = \<lfloor>x\<rfloor>;
          r = x - of_int f
      in (if r < 1 / 2 then of_int f
          else if 1 / 2 < r then of_int (f + 1)
          else if even f then of_int f else of_int (f + 1)) / 10)"

text \<open>\<open>f.get(key) == text\<close> for each \<open>f\<close> of a list, in order.\<close>

fun get_equals :: "string \<Rightarrow> string \<Rightarrow> json list \<Rightarrow> py_exc + bool list" where
  "get_equals key text [] = Inr []"
| "get_equals key text (f # fs) =
     bind_exc (py_get f key JNull) (\<lambda>v.
     bind_exc (get_equals key text fs) (\<lambda>bs. Inr ((v = JStr text) # bs)))"

fun select :: "bool list \<Rightarrow> 'a list \<Rightarrow> 'a list" where
  "select (b # bs) (x # xs) = (if b then x # select bs xs else select bs xs)"
| "select _ _ = []"

text \<open>The \<open>try\<close> block under \<open>DETERMINISTIC SCORE CALCULATION\<close>, up to \<open>calc_score\<close>.\<close>

definition calc_score :: "json \<Rightarrow> py_exc + rat" where
  "calc_score result =
     bind_exc (py_getitem result ''feature_analysis'') (\<lambda>features_obj.
     bind_exc (py_iter features_obj) (\<lambda>features.
     bind_exc (get_equals ''category'' ''Non-Negotiable Benefits'' features) (\<lambda>is_nn.
     bind_exc (get_equals ''category'' ''Must Have'' features) (\<lambda>is_mh.
       let non_negotiable = select is_nn features;
           must_have = select is_mh features
       in
     bind_exc (get_equals ''status'' ''Positive'' non_negotiable) (\<lambda>nn_positive.
     bind_exc (get_equals ''status'' ''Positive'' must_have) (\<lambda>mh_positive.
       let pos_nn = length (filter id nn_positive);
           pos_mh = length (filter id mh_positive);
           total_relevant = length non_negotiable + length must_have;
           total_positive = pos_nn + pos_mh
       in if total_relevant > 0
          then Inr (py_round1 (of_nat total_positive / of_nat total_relevant * 10))
          else Inr 0))))))"

text \<open>The block with its \<open>except\<close>: the score is written, or the original kept.\<close>

definition recompute_score :: "json \<Rightarrow> py_exc + json" where
  "recompute_score result =
     (case calc_score result of
        Inr score \<Rightarrow> py_setitem result ''product_score'' (JFloat score)
      | Inl e \<Rightarrow>
          bind_exc (py_in ''product_score'' result) (\<lambda>has_score.
            if has_score then Inr result
            else py_setitem result ''product_score'' (JFloat 0)))"

definition compare_default :: "json \<Rightarrow> json" where
  "compare_default company =
     JObj [(''pros'', JArr [JStr ''Could not analyze policy details.'']),
           (''cons'', JArr [JStr ''AI response was not in expected format.'']),
           (''current_policy_stats'',
              JObj [(''company'', company),
                    (''csr'', JStr ''N/A''), (''csr_rank'', JStr ''N/A''),
                    (''solvency'', JStr ''N/A''), (''solvency_rank'', JStr ''N/A''),
                    (''complaints'', JStr ''N/A''), (''complaints_rank'', JStr ''N/A'')]),
           (''recommendations'', JArr [])]"

text \<open>
  Lines 652 to 724: \<open>data\<close> is the request body and \<open>response_text\<close> is \<open>response.text\<close>.  The
  debug lines call \<open>result.keys()\<close> and \<open>len\<close>, which can raise.
\<close>

definition compare_parse ::
  "(string \<Rightarrow> loads_result) \<Rightarrow> json \<Rightarrow> string option \<Rightarrow> py_exc + json" where
  "compare_parse loads data response_text =
     (case response_text of
        None \<Rightarrow> Inl ValueError
      | Some raw \<Rightarrow>
          if raw = [] then Inl ValueError
          else
            let text = py_strip (py_replace (py_replace raw ''```json'' '''') ''```'' '''')
            in case loads text of
                 Loaded result \<Rightarrow>
                   bind_exc (py_keys result) (\<lambda>keys.
                   bind_exc (py_in ''feature_analysis'' result) (\<lambda>has_features.
                   bind_exc (if has_features
                             then bind_exc (py_getitem result ''feature_analysis'') (\<lambda>fa.
                                  bind_exc (py_len fa) (\<lambda>n. recompute_score result))
                             else Inr result) (\<lambda>result.
                   bind_exc (py_in ''recommendations'' result) (\<lambda>has_recs.
                     if has_recs
                     then bind_exc (py_getitem result ''recommendations'') (\<lambda>recs.
                          bind_exc (py_len recs) (\<lambda>n. Inr result))
                     else Inr result))))
               | LoadsRaises e \<Rightarrow> Inl e
               | JSONDecodeError \<Rightarrow>
                   (case salvage_braces loads text of
                      Some v \<Rightarrow> Inr v
                    | None \<Rightarrow>
                        bind_exc (py_get data ''company'' (JStr ''Unknown'')) (\<lambda>company.
                          Inr (compare_default company))))"

text \<open>Lines 652 to 777: from the response of the model to what the endpoint returns.\<close>

definition compare_policy_response ::
  "(string \<Rightarrow> loads_result) \<Rightarrow> (string \<Rightarrow> rat option) \<Rightarrow> string list list option \<Rightarrow> json \<Rightarrow>
   string option \<Rightarrow> http_error + json" where
  "compare_policy_response loads float_of csv_rows data response_text =
     (case bind_exc (compare_parse loads data response_text) (compare_finish float_of csv_rows) of
        Inl e \<Rightarrow> Inl (HTTPException 500)
      | Inr result \<Rightarrow> Inr result)"

(*DEFS-END*)

section \<open>Evaluation\<close>

lemmas py_eval = py_isspace_def is_decimal_def py_isdigit_def lower_char_def py_lower_def
  py_strip_def py_split_def py_replace_def py_find_def py_rfind_def py_slice_def
  digit_char_def str_nat.simps py_str_int_def max_str_digits_def digit_val_def py_int_def
  bind_exc_def
  extract_number_def group_loop.simps format_indian_currency_def char_of_def bit_Suc_0_iff
  Let_def

section \<open>Results as values\<close>

lemma bind_exc_Inr_iff: "bind_exc r f = Inr y \<longleftrightarrow> (\<exists>x. r = Inr x \<and> f x = Inr y)"
  by (cases r) (simp_all add: bind_exc_def)

section \<open>Properties of the monetary normalisation\<close>

lemma components_loop_Cons:
  "components_loop repr (c # rest) t v =
     (case component_step repr c of
        Inl e \<Rightarrow> Inl e
      | Inr None \<Rightarrow> components_loop repr rest t v
      | Inr (Some (amount, c')) \<Rightarrow> components_loop repr rest (t + amount) (v @ [c']))"
  by (simp add: component_step_def split: sum.splits)

lemma component_step_percent:
  "percent_label c \<Longrightarrow> component_step repr c = Inr x \<Longrightarrow> x = None"
  by (simp add: component_step_def percent_label_def split: sum.splits if_splits)

lemma percent_label_setitem_value:
  "py_setitem c ''value'' x = Inr c' \<Longrightarrow> percent_label c' = percent_label c"
  by (cases c) (auto simp: percent_label_def update_conv')

lemma component_step_kept:
  assumes "component_step repr c = Inr (Some (amount, c'))"
  shows "\<not> percent_label c'"
proof -
  from assms obtain x where "py_setitem c ''value'' x = Inr c'"
    by (auto simp: component_step_def split: sum.splits if_splits)
  then have "percent_label c' = percent_label c" by (rule percent_label_setitem_value)
  moreover have "\<not> percent_label c" using component_step_percent [of c repr] assms by auto
  ultimately show ?thesis by simp
qed

lemma components_loop_skip_percent:
  "components_loop repr comps t v = Inr r \<Longrightarrow>
   components_loop repr (filter (\<lambda>c. \<not> percent_label c) comps) t v = Inr r"
proof (induction comps arbitrary: t v)
  case Nil
  then show ?case by simp
next
  case (Cons c comps)
  note run = Cons.prems [unfolded components_loop_Cons]
  show ?case
  proof (cases "component_step repr c")
    case (Inl e)
    with run show ?thesis by simp
  next
    case (Inr x)
    show ?thesis
    proof (cases x)
      case None
      with Inr run have "components_loop repr comps t v = Inr r" by simp
      then have "components_loop repr (filter (\<lambda>c. \<not> percent_label c) comps) t v = Inr r"
        by (rule Cons.IH)
      with Inr None show ?thesis
        by (cases "percent_label c") (simp_all del: components_loop.simps add: components_loop_Cons)
    next
      case (Some p)
      obtain amount c' where p: "p = (amount, c')" by (cases p)
      from Inr Some p have np: "\<not> percent_label c"
        using component_step_percent [of c repr x] by auto
      from Inr Some p run have "components_loop repr comps (t + amount) (v @ [c']) = Inr r"
        by simp
      then have "components_loop repr (filter (\<lambda>c. \<not> percent_label c) comps)
          (t + amount) (v @ [c']) = Inr r"
        by (rule Cons.IH)
      with Inr Some p np show ?thesis
        by (simp del: components_loop.simps add: components_loop_Cons)
    qed
  qed
qed

lemma components_loop_kept_no_percent:
  "components_loop repr comps t v = Inr (t', v') \<Longrightarrow> list_all (\<lambda>c. \<not> percent_label c) v \<Longrightarrow>
   list_all (\<lambda>c. \<not> percent_label c) v'"
proof (induction comps arbitrary: t v)
  case Nil
  then show ?case by simp
next
  case (Cons c comps)
  note run = Cons.prems(1) [unfolded components_loop_Cons]
  show ?case
  proof (cases "component_step repr c")
    case (Inl e)
    with run show ?thesis by simp
  next
    case (Inr x)
    show ?thesis
    proof (cases x)
      case None
      with Inr run have "components_loop repr comps t v = Inr (t', v')" by simp
      with Cons.IH Cons.prems(2) show ?thesis by blast
    next
      case (Some p)
      obtain amount c' where p: "p = (amount, c')" by (cases p)
      from Inr Some p have "\<not> percent_label c'" by (simp add: component_step_kept)
      with Cons.prems(2) have all: "list_all (\<lambda>c. \<not> percent_label c) (v @ [c'])" by simp
      from Inr Some p run have "components_loop repr comps (t + amount) (v @ [c']) = Inr (t', v')"
        by simp
      from Cons.IH [OF this all] show ?thesis .
    qed
  qed
qed

lemma recalc_sum_insured_document:
  assumes run: "recalc_sum_insured repr (JObj kvs) = Inr data'"
    and si: "map_of kvs ''sum_insured'' = Some (JObj si)"
    and comps: "map_of si ''components'' = Some (JArr comps)"
  shows "\<exists>total_val kept shown.
     components_loop repr (filter (\<lambda>c. \<not> percent_label c) comps) 0 [] = Inr (total_val, kept) \<and>
     list_all (\<lambda>c. \<not> percent_label c) kept \<and>
     format_indian_currency total_val = Inr shown \<and>
     data' = JObj (AList.update ''sum_insured''
               (JObj (AList.update ''total'' (JStr shown)
                        (AList.update ''components'' (JArr kept) si))) kvs)"
proof -
  from run si comps obtain r shown where
      loop: "components_loop repr comps 0 [] = Inr r"
      and shown: "format_indian_currency (fst r) = Inr shown"
      and out: "data' = JObj (AList.update ''sum_insured''
               (JObj (AList.update ''total'' (JStr shown)
                        (AList.update ''components'' (JArr (snd r)) si))) kvs)"
    by (auto simp: recalc_sum_insured_def bind_exc_Inr_iff)
  obtain total_val kept where r: "r = (total_val, kept)" by (cases r)
  from loop r have "components_loop repr (filter (\<lambda>c. \<not> percent_label c) comps) 0 [] = Inr (total_val, kept)"
    by (simp add: components_loop_skip_percent)
  moreover from loop r have "list_all (\<lambda>c. \<not> percent_label c) kept"
    using components_loop_kept_no_percent [of repr comps 0 "[]" total_val kept] by simp
  ultimately show ?thesis using shown out r by auto
qed

lemma extract_number_example:
  "extract_number repr (JStr ''10,00,000.50'') = Inr 1000000"
  by (simp add: py_eval)

lemma format_indian_currency_example:
  "format_indian_currency 1000000 = Inr ''10,00,000''"
  by (simp add: py_eval)

lemma recalc_sum_insured_example:
  "recalc_sum_insured repr
     (JObj [(''company'', JStr ''Acme''),
            (''sum_insured'', JObj [(''total'', JStr ''11,00,000''), (''components'', JArr
              [JObj [(''label'', JStr ''Base Sum Insured''), (''value'', JStr ''10,00,000.50'')],
               JObj [(''label'', JStr ''Bonus %''), (''value'', JStr ''10%'')]])])])
   = Inr (JObj [(''company'', JStr ''Acme''),
            (''sum_insured'', JObj [(''total'', JStr ''10,00,000''), (''components'', JArr
              [JObj [(''label'', JStr ''Base Sum Insured''), (''value'', JStr ''10,00,000'')]])])])"
  by (simp add: py_eval recalc_sum_insured_def)

text \<open>
  C3.  The value \<open>10,00,000.50\<close> is read as the amount 1000000, and 1000000 is displayed as
  \<open>10,00,000\<close>.  On the document whose components are \<open>Base Sum Insured\<close> with that value
  and \<open>Bonus %\<close> with value \<open>10%\<close>, the endpoint's recomputation returns the document with
  the first component only, displayed as \<open>10,00,000\<close>, and with the total \<open>10,00,000\<close>.
  For every document with a component list on which the recomputation returns: the
  component list of the returned document is the list the loop keeps on the input
  without its percent-labelled components, no element of it has a percent label, and the
  total of the returned document is the formatted total of that same run; so a
  percent-labelled component is in neither.
\<close>

theorem monetary_normalisation:
  "extract_number repr (JStr ''10,00,000.50'') = Inr 1000000 \<and>
   format_indian_currency 1000000 = Inr ''10,00,000'' \<and>
   recalc_sum_insured repr
     (JObj [(''company'', JStr ''Acme''),
            (''sum_insured'', JObj [(''total'', JStr ''11,00,000''), (''components'', JArr
              [JObj [(''label'', JStr ''Base Sum Insured''), (''value'', JStr ''10,00,000.50'')],
               JObj [(''label'', JStr ''Bonus %''), (''value'', JStr ''10%'')]])])])
   = Inr (JObj [(''company'', JStr ''Acme''),
            (''sum_insured'', JObj [(''total'', JStr ''10,00,000''), (''components'', JArr
              [JObj [(''label'', JStr ''Base Sum Insured''), (''value'', JStr ''10,00,000'')]])])]) \<and>
   (recalc_sum_insured repr (JObj kvs) = Inr data' \<and>
    map_of kvs ''sum_insured'' = Some (JObj si) \<and>
    map_of si ''components'' = Some (JArr comps) \<longrightarrow>
    (\<exists>total_val kept shown.
       components_loop repr (filter (\<lambda>c. \<not> percent_label c) comps) 0 [] = Inr (total_val, kept) \<and>
       list_all (\<lambda>c. \<not> percent_label c) kept \<and>
       format_indian_currency total_val = Inr shown \<and>
       data' = JObj (AList.update ''sum_insured''
                 (JObj (AList.update ''total'' (JStr shown)
                          (AList.update ''components'' (JArr kept) si))) kvs)))"
  using extract_number_example [of repr] format_indian_currency_example
    recalc_sum_insured_example [of repr]
    recalc_sum_insured_document [of repr kvs data' si comps]
  by blast

theorem monetary_normalisation_witness:
  "recalc_sum_insured (\<lambda>v. [])
     (JObj [(''insurer'', JStr ''Acme''),
      (''sum_insured'', JObj [(''components'', JArr
         [JObj [(''label'', JStr ''Bonus percent''), (''value'', JStr ''10'')],
          JObj [(''label'', JStr ''Cumulative Bonus''), (''value'', JStr ''50,000'')]])])]) = Inr (JObj [(''insurer'', JStr ''Acme''),
      (''sum_insured'', JObj [(''components'', JArr
         [JObj [(''label'', JStr ''Cumulative Bonus''), (''value'', JStr ''50,000'')]]),
         (''total'', JStr ''50,000'')])]) \<and>
   (\<exists>total_val kept shown.
       components_loop (\<lambda>v. [])
         (filter (\<lambda>c. \<not> percent_label c)
            [JObj [(''label'', JStr ''Bonus percent''), (''value'', JStr ''10'')],
          JObj [(''label'', JStr ''Cumulative Bonus''), (''value'', JStr ''50,000'')]]) 0 [] = Inr (total_val, kept) \<and>
       list_all (\<lambda>c. \<not> percent_label c) kept \<and>
       format_indian_currency total_val = Inr shown \<and>
       (JObj [(''insurer'', JStr ''Acme''),
      (''sum_insured'', JObj [(''components'', JArr
         [JObj [(''label'', JStr ''Cumulative Bonus''), (''value'', JStr ''50,000'')]]),
         (''total'', JStr ''50,000'')])]) = JObj (AList.update ''sum_insured''
                 (JObj (AList.update ''total'' (JStr shown)
                          (AList.update ''components'' (JArr kept)
                             [(''components'', JArr
         [JObj [(''label'', JStr ''Bonus percent''), (''value'', JStr ''10'')],
          JObj [(''label'', JStr ''Cumulative Bonus''), (''value'', JStr ''50,000'')]])])))
                 [(''insurer'', JStr ''Acme''),
      (''sum_insured'', JObj [(''components'', JArr
         [JObj [(''label'', JStr ''Bonus percent''), (''value'', JStr ''10'')],
          JObj [(''label'', JStr ''Cumulative Bonus''), (''value'', JStr ''50,000'')]])])]))"
proof -
  have run: "recalc_sum_insured (\<lambda>v. [])
     (JObj [(''insurer'', JStr ''Acme''),
      (''sum_insured'', JObj [(''components'', JArr
         [JObj [(''label'', JStr ''Bonus percent''), (''value'', JStr ''10'')],
          JObj [(''label'', JStr ''Cumulative Bonus''), (''value'', JStr ''50,000'')]])])]) = Inr (JObj [(''insurer'', JStr ''Acme''),
      (''sum_insured'', JObj [(''components'', JArr
         [JObj [(''label'', JStr ''Cumulative Bonus''), (''value'', JStr ''50,000'')]]),
         (''total'', JStr ''50,000'')])])"
    by (simp add: py_eval recalc_sum_insured_def)
  have si: "map_of [(''insurer'', JStr ''Acme''),
      (''sum_insured'', JObj [(''components'', JArr
         [JObj [(''label'', JStr ''Bonus percent''), (''value'', JStr ''10'')],
          JObj [(''label'', JStr ''Cumulative Bonus''), (''value'', JStr ''50,000'')]])])] ''sum_insured'' = Some (JObj [(''components'', JArr
         [JObj [(''label'', JStr ''Bonus percent''), (''value'', JStr ''10'')],
          JObj [(''label'', JStr ''Cumulative Bonus''), (''value'', JStr ''50,000'')]])])"
    by simp
  have comps: "map_of [(''components'', JArr
         [JObj [(''label'', JStr ''Bonus percent''), (''value'', JStr ''10'')],
          JObj [(''label'', JStr ''Cumulative Bonus''), (''value'', JStr ''50,000'')]])] ''components'' = Some (JArr [JObj [(''label'', JStr ''Bonus percent''), (''value'', JStr ''10'')],
          JObj [(''label'', JStr ''Cumulative Bonus''), (''value'', JStr ''50,000'')]])"
    by simp
  from monetary_normalisation [of "\<lambda>v. []" "[(''insurer'', JStr ''Acme''),
      (''sum_insured'', JObj [(''components'', JArr
         [JObj [(''label'', JStr ''Bonus percent''), (''value'', JStr ''10'')],
          JObj [(''label'', JStr ''Cumulative Bonus''), (''value'', JStr ''50,000'')]])])]" "(JObj [(''insurer'', JStr ''Acme''),
      (''sum_insured'', JObj [(''components'', JArr
         [JObj [(''label'', JStr ''Cumulative Bonus''), (''value'', JStr ''50,000'')]]),
         (''total'', JStr ''50,000'')])])" "[(''components'', JArr
         [JObj [(''label'', JStr ''Bonus percent''), (''value'', JStr ''10'')],
          JObj [(''label'', JStr ''Cumulative Bonus''), (''value'', JStr ''50,000'')]])]" "[JObj [(''label'', JStr ''Bonus percent''), (''value'', JStr ''10'')],
          JObj [(''label'', JStr ''Cumulative Bonus''), (''value'', JStr ''50,000'')]]"] run si comps
  show ?thesis by blast
qed

section \<open>Properties of the comparison endpoint\<close>

lemma py_getitem_setitem:
  "py_setitem r k v = Inr r' \<Longrightarrow> py_getitem r' k' = (if k' = k then Inr v else py_getitem r k')"
  by (cases r) (auto simp: update_conv')

lemma py_getitem_JArr_D:
  "py_getitem r k = Inr v \<Longrightarrow> \<exists>kvs. r = JObj kvs \<and> map_of kvs k = Some v"
  by (cases r) (auto split: option.splits)

lemma enforce_pros_cons_lists:
  assumes "map_of kvs ''pros'' = Some (JArr ps)" and "map_of kvs ''cons'' = Some (JArr cs)"
  shows "enforce_pros_cons (JObj kvs) =
     Inr (JObj (if length (take 7 ps) > length (take 7 cs)
                then AList.update ''pros'' (JArr (take (length (take 7 cs)) (take 7 ps)))
                       (AList.update ''cons'' (JArr (take 7 cs))
                          (AList.update ''pros'' (JArr (take 7 ps)) kvs))
                else AList.update ''cons'' (JArr (take 7 cs))
                       (AList.update ''pros'' (JArr (take 7 ps)) kvs)))"
  using assms by (simp add: enforce_pros_cons_def bind_exc_def update_conv')

lemma enforce_pros_cons_out_lists:
  assumes run: "enforce_pros_cons result = Inr out"
    and pros: "py_getitem out ''pros'' = Inr (JArr ps')"
    and cons: "py_getitem out ''cons'' = Inr (JArr cs')"
  shows "\<exists>ps cs. py_getitem result ''pros'' = Inr (JArr ps) \<and> py_getitem result ''cons'' = Inr (JArr cs)"
proof (cases result)
  case (JObj kvs)
  show ?thesis
  proof (cases "map_of kvs ''pros''")
    case None
    with run JObj have "out = result" by (simp add: enforce_pros_cons_def bind_exc_def)
    with pros JObj None show ?thesis by simp
  next
    case (Some p)
    note p = Some
    show ?thesis
    proof (cases "map_of kvs ''cons''")
      case None
      with run JObj p have "out = result" by (simp add: enforce_pros_cons_def bind_exc_def)
      with cons JObj None show ?thesis by simp
    next
      case (Some c)
      have "\<exists>ps. p = JArr ps"
        using run pros cons JObj p Some
        by (cases p; cases c)
          (auto simp: enforce_pros_cons_def bind_exc_def update_conv' split: if_splits)
      moreover have "\<exists>cs. c = JArr cs"
        using run pros cons JObj p Some
        by (cases p; cases c)
          (auto simp: enforce_pros_cons_def bind_exc_def update_conv' split: if_splits)
      ultimately show ?thesis using JObj p Some by auto
    qed
  qed
qed (use assms in \<open>auto simp: enforce_pros_cons_def bind_exc_def split: if_splits\<close>)

lemma force_sort_other_keys:
  "k \<noteq> ''recommendations'' \<Longrightarrow> py_getitem (force_sort float_of csv_rows result) k = py_getitem result k"
proof -
  assume k: "k \<noteq> ''recommendations''"
  show ?thesis
  proof (cases "force_sort_attempt float_of csv_rows result")
    case (Inl e)
    then show ?thesis by (simp add: force_sort_def)
  next
    case (Inr r')
    then have "r' = result \<or> (\<exists>v. py_setitem result ''recommendations'' v = Inr r')"
      by (auto simp: force_sort_attempt_def bind_exc_def Let_def
          split: option.splits list.splits sum.splits json.splits if_splits)
    with k Inr show ?thesis
      by (auto simp: force_sort_def py_getitem_setitem)
  qed
qed


lemma enforce_pros_cons_getitem:
  assumes "py_getitem result ''pros'' = Inr (JArr ps)" and "py_getitem result ''cons'' = Inr (JArr cs)"
  shows "\<exists>r1. enforce_pros_cons result = Inr r1 \<and>
           py_getitem r1 ''cons'' = Inr (JArr (take 7 cs)) \<and>
           py_getitem r1 ''pros'' = Inr (JArr (take (min 7 (length cs)) ps))"
proof -
  from assms(1) obtain kvs where r: "result = JObj kvs" and p: "map_of kvs ''pros'' = Some (JArr ps)"
    using py_getitem_JArr_D by blast
  from assms(2) r have c: "map_of kvs ''cons'' = Some (JArr cs)" by (auto split: option.splits)
  have eq: "take (min 7 (length cs)) (take 7 ps) = take (min 7 (length cs)) ps"
    by (simp add: min.absorb1)
  have eq2: "\<not> min (length ps) 7 > min (length cs) 7 \<Longrightarrow> take 7 ps = take (min 7 (length cs)) ps"
    by (cases "length cs \<ge> 7") (simp_all add: min_def split: if_splits)
  show ?thesis
    unfolding r enforce_pros_cons_lists [OF p c]
    using eq eq2 by (auto simp: update_conv' min.commute)
qed

lemma compare_finish_pros_cons:
  assumes "py_getitem result ''pros'' = Inr (JArr ps)" and "py_getitem result ''cons'' = Inr (JArr cs)"
  shows "\<exists>out. compare_finish float_of csv_rows result = Inr out \<and>
           py_getitem out ''cons'' = Inr (JArr (take 7 cs)) \<and>
           py_getitem out ''pros'' = Inr (JArr (take (min 7 (length cs)) ps))"
  using enforce_pros_cons_getitem [OF assms]
  by (auto simp: compare_finish_def bind_exc_def force_sort_other_keys)

lemma compare_finish_bounds:
  assumes run: "compare_finish float_of csv_rows result = Inr out"
    and pros: "py_getitem out ''pros'' = Inr (JArr ps')"
    and cons: "py_getitem out ''cons'' = Inr (JArr cs')"
  shows "length ps' \<le> 7 \<and> length cs' \<le> 7 \<and> length ps' \<le> length cs'"
proof -
  from run obtain r1 where e: "enforce_pros_cons result = Inr r1"
    and out: "out = force_sort float_of csv_rows r1"
    by (auto simp: compare_finish_def bind_exc_def split: sum.splits)
  from pros cons out have p1: "py_getitem r1 ''pros'' = Inr (JArr ps')"
    and c1: "py_getitem r1 ''cons'' = Inr (JArr cs')"
    by (simp_all add: force_sort_other_keys)
  from enforce_pros_cons_out_lists [OF e p1 c1] obtain ps cs where
    "py_getitem result ''pros'' = Inr (JArr ps)" "py_getitem result ''cons'' = Inr (JArr cs)"
    by blast
  from enforce_pros_cons_getitem [OF this] e p1 c1
  have "cs' = take 7 cs" "ps' = take (min 7 (length cs)) ps" by auto
  then show ?thesis by auto
qed

text \<open>
  C10.  Whatever the parsing stage hands over, if the endpoint returns a result that holds
  a list under \<open>pros\<close> and a list under \<open>cons\<close>, each has at most 7 entries and \<open>pros\<close> is no
  longer than \<open>cons\<close>.  The endpoint does return on every result that holds the two lists:
  \<open>cons\<close> is cut to its first 7 entries and \<open>pros\<close> to as many as \<open>cons\<close> then has.
\<close>

theorem pros_cons_limits:
  "(compare_finish float_of csv_rows result = Inr out \<and>
    py_getitem out ''pros'' = Inr (JArr ps') \<and> py_getitem out ''cons'' = Inr (JArr cs') \<longrightarrow>
      length ps' \<le> 7 \<and> length cs' \<le> 7 \<and> length ps' \<le> length cs') \<and>
   (py_getitem result ''pros'' = Inr (JArr ps) \<and> py_getitem result ''cons'' = Inr (JArr cs) \<longrightarrow>
      (\<exists>out. compare_finish float_of csv_rows result = Inr out \<and>
         py_getitem out ''cons'' = Inr (JArr (take 7 cs)) \<and>
         py_getitem out ''pros'' = Inr (JArr (take (min 7 (length cs)) ps))))"
  using compare_finish_bounds [of float_of csv_rows result out ps' cs']
    compare_finish_pros_cons [of result ps cs float_of csv_rows]
  by blast

theorem pros_cons_limits_witness:
  "compare_finish (\<lambda>s. None) None
     (JObj [(''pros'', JArr [JStr ''a'', JStr ''b'', JStr ''c'']),
               (''cons'', JArr [JStr ''x'', JStr ''y'']),
               (''recommendations'', JArr [])]) = Inr (JObj [(''pros'', JArr [JStr ''a'', JStr ''b'']),
               (''cons'', JArr [JStr ''x'', JStr ''y'']),
               (''recommendations'', JArr [])]) \<and>
   py_getitem (JObj [(''pros'', JArr [JStr ''a'', JStr ''b'']),
               (''cons'', JArr [JStr ''x'', JStr ''y'']),
               (''recommendations'', JArr [])]) ''pros'' = Inr (JArr [JStr ''a'', JStr ''b'']) \<and>
   py_getitem (JObj [(''pros'', JArr [JStr ''a'', JStr ''b'']),
               (''cons'', JArr [JStr ''x'', JStr ''y'']),
               (''recommendations'', JArr [])]) ''cons'' = Inr (JArr [JStr ''x'', JStr ''y'']) \<and>
   length [JStr ''a'', JStr ''b''] \<le> 7 \<and> length [JStr ''x'', JStr ''y''] \<le> 7 \<and>
   length [JStr ''a'', JStr ''b''] \<le> length [JStr ''x'', JStr ''y''] \<and>
   py_getitem (JObj [(''pros'', JArr [JStr ''a'', JStr ''b'', JStr ''c'']),
               (''cons'', JArr [JStr ''x'', JStr ''y'']),
               (''recommendations'', JArr [])]) ''pros'' = Inr (JArr [JStr ''a'', JStr ''b'', JStr ''c'']) \<and>
   py_getitem (JObj [(''pros'', JArr [JStr ''a'', JStr ''b'', JStr ''c'']),
               (''cons'', JArr [JStr ''x'', JStr ''y'']),
               (''recommendations'', JArr [])]) ''cons'' = Inr (JArr [JStr ''x'', JStr ''y'']) \<and>
   (\<exists>out. compare_finish (\<lambda>s. None) None (JObj [(''pros'', JArr [JStr ''a'', JStr ''b'', JStr ''c'']),
               (''cons'', JArr [JStr ''x'', JStr ''y'']),
               (''recommendations'', JArr [])]) = Inr out \<and>
         py_getitem out ''cons'' = Inr (JArr (take 7 [JStr ''x'', JStr ''y''])) \<and>
         py_getitem out ''pros''
           = Inr (JArr (take (min 7 (length [JStr ''x'', JStr ''y''])) [JStr ''a'', JStr ''b'', JStr ''c''])))"
proof -
  have run: "compare_finish (\<lambda>s. None) None
     (JObj [(''pros'', JArr [JStr ''a'', JStr ''b'', JStr ''c'']),
               (''cons'', JArr [JStr ''x'', JStr ''y'']),
               (''recommendations'', JArr [])]) = Inr (JObj [(''pros'', JArr [JStr ''a'', JStr ''b'']),
               (''cons'', JArr [JStr ''x'', JStr ''y'']),
               (''recommendations'', JArr [])])"
    by (simp add: compare_finish_def enforce_pros_cons_def force_sort_def force_sort_attempt_def
        bind_exc_def)
  have p: "py_getitem (JObj [(''pros'', JArr [JStr ''a'', JStr ''b'']),
               (''cons'', JArr [JStr ''x'', JStr ''y'']),
               (''recommendations'', JArr [])]) ''pros'' = Inr (JArr [JStr ''a'', JStr ''b''])" by simp
  have c: "py_getitem (JObj [(''pros'', JArr [JStr ''a'', JStr ''b'']),
               (''cons'', JArr [JStr ''x'', JStr ''y'']),
               (''recommendations'', JArr [])]) ''cons'' = Inr (JArr [JStr ''x'', JStr ''y''])" by simp
  have p0: "py_getitem (JObj [(''pros'', JArr [JStr ''a'', JStr ''b'', JStr ''c'']),
               (''cons'', JArr [JStr ''x'', JStr ''y'']),
               (''recommendations'', JArr [])]) ''pros'' = Inr (JArr [JStr ''a'', JStr ''b'', JStr ''c''])" by simp
  have c0: "py_getitem (JObj [(''pros'', JArr [JStr ''a'', JStr ''b'', JStr ''c'']),
               (''cons'', JArr [JStr ''x'', JStr ''y'']),
               (''recommendations'', JArr [])]) ''cons'' = Inr (JArr [JStr ''x'', JStr ''y''])" by simp
  from pros_cons_limits [of "\<lambda>s. None" None "(JObj [(''pros'', JArr [JStr ''a'', JStr ''b'', JStr ''c'']),
               (''cons'', JArr [JStr ''x'', JStr ''y'']),
               (''recommendations'', JArr [])])" "(JObj [(''pros'', JArr [JStr ''a'', JStr ''b'']),
               (''cons'', JArr [JStr ''x'', JStr ''y'']),
               (''recommendations'', JArr [])])"
      "[JStr ''a'', JStr ''b'']" "[JStr ''x'', JStr ''y'']"
      "[JStr ''a'', JStr ''b'', JStr ''c'']" "[JStr ''x'', JStr ''y'']"] run p c p0 c0
  show ?thesis by blast
qed

subsection \<open>Ranking\<close>





















section \<open>Properties of the fallback invoker\<close>

lemma fallback_loop_success:
  "k < length rest \<Longrightarrow>
   (\<forall>i<k. \<exists>e. backend (tried @ take i rest) (rest ! i) contents (build_config kwargs) = Inl e) \<Longrightarrow>
   backend (tried @ take k rest) (rest ! k) contents (build_config kwargs) = Inr r \<Longrightarrow>
   fallback_loop backend contents kwargs rest prev tried = (Inr r, tried @ take (Suc k) rest)"
proof (induction k arbitrary: rest prev tried)
  case 0
  then obtain m ms where rest: "rest = m # ms" by (cases rest) auto
  with 0 show ?case by simp
next
  case (Suc k)
  then obtain m ms where rest: "rest = m # ms" by (cases rest) auto
  from Suc.prems(2) rest obtain e where e: "backend tried m contents (build_config kwargs) = Inl e"
    by force
  have fails: "\<forall>i<k. \<exists>e. backend ((tried @ [m]) @ take i ms) (ms ! i) contents (build_config kwargs) = Inl e"
  proof (intro allI impI)
    fix i assume "i < k"
    then have "Suc i < Suc k" by simp
    with Suc.prems(2) obtain e' where
      "backend (tried @ take (Suc i) rest) (rest ! Suc i) contents (build_config kwargs) = Inl e'"
      by blast
    then show "\<exists>e. backend ((tried @ [m]) @ take i ms) (ms ! i) contents (build_config kwargs) = Inl e"
      using rest by simp
  qed
  have ok: "backend ((tried @ [m]) @ take k ms) (ms ! k) contents (build_config kwargs) = Inr r"
    using Suc.prems(3) rest by simp
  have "k < length ms" using Suc.prems(1) rest by simp
  from Suc.IH [OF this fails ok]
  have "fallback_loop backend contents kwargs ms (Some e) (tried @ [m])
      = (Inr r, (tried @ [m]) @ take (Suc k) ms)" .
  with e rest show ?case by simp
qed

lemma fallback_loop_all_fail:
  "(\<forall>i<length rest. \<exists>e. backend (tried @ take i rest) (rest ! i) contents (build_config kwargs) = Inl e) \<Longrightarrow>
   rest \<noteq> [] \<Longrightarrow>
   \<exists>e. backend (tried @ butlast rest) (last rest) contents (build_config kwargs) = Inl e \<and>
       fallback_loop backend contents kwargs rest prev tried = (Inl (Reraised e), tried @ rest)"
proof (induction rest arbitrary: prev tried)
  case Nil
  then show ?case by simp
next
  case (Cons m ms)
  from Cons.prems(1) obtain e where e: "backend tried m contents (build_config kwargs) = Inl e"
    by force
  show ?case
  proof (cases "ms = []")
    case True
    with e show ?thesis by simp
  next
    case False
    have fails: "\<forall>i<length ms. \<exists>e. backend ((tried @ [m]) @ take i ms) (ms ! i) contents (build_config kwargs) = Inl e"
    proof (intro allI impI)
      fix i assume "i < length ms"
      then have "Suc i < length (m # ms)" by simp
      with Cons.prems(1) obtain e' where
        "backend (tried @ take (Suc i) (m # ms)) ((m # ms) ! Suc i) contents (build_config kwargs) = Inl e'"
        by blast
      then show "\<exists>e. backend ((tried @ [m]) @ take i ms) (ms ! i) contents (build_config kwargs) = Inl e"
        by simp
    qed
    from Cons.IH [OF fails False, of "Some e"] obtain e2 where
      "backend ((tried @ [m]) @ butlast ms) (last ms) contents (build_config kwargs) = Inl e2"
      "fallback_loop backend contents kwargs ms (Some e) (tried @ [m]) = (Inl (Reraised e2), (tried @ [m]) @ ms)"
      by blast
    with e False show ?thesis by simp
  qed
qed


text \<open>
  C2.  For every candidate list, request and backend: when the attempts at positions
  \<open>0..k-1\<close> raise and the attempt at position \<open>k\<close> returns \<open>r\<close>, the invoker returns \<open>r\<close> and
  the models it issued a request to are exactly the first \<open>k + 1\<close> candidates, so none
  after position \<open>k\<close>; when the list is not empty and every attempt raises, the invoker
  raises the exception of the attempt at the last candidate, having tried them all.
\<close>

theorem fallback_first_success:
  "(k < length candidates \<and>
    (\<forall>i<k. \<exists>e. attempt_outcome backend candidates contents kwargs i = Inl e) \<and>
    attempt_outcome backend candidates contents kwargs k = Inr r \<longrightarrow>
      generate_content_with_fallback backend candidates contents kwargs
        = (Inr r, take (Suc k) candidates)) \<and>
   (candidates \<noteq> [] \<and>
    (\<forall>i<length candidates. \<exists>e. attempt_outcome backend candidates contents kwargs i = Inl e) \<longrightarrow>
      (\<exists>e. attempt_outcome backend candidates contents kwargs (length candidates - 1) = Inl e \<and>
         generate_content_with_fallback backend candidates contents kwargs
           = (Inl (Reraised e), candidates)))"
proof (intro conjI impI)
  assume "k < length candidates \<and>
    (\<forall>i<k. \<exists>e. attempt_outcome backend candidates contents kwargs i = Inl e) \<and>
    attempt_outcome backend candidates contents kwargs k = Inr r"
  then show "generate_content_with_fallback backend candidates contents kwargs
        = (Inr r, take (Suc k) candidates)"
    using fallback_loop_success [of k candidates backend "[]" contents kwargs r None]
    by (simp add: generate_content_with_fallback_def attempt_outcome_def)
next
  assume a: "candidates \<noteq> [] \<and>
    (\<forall>i<length candidates. \<exists>e. attempt_outcome backend candidates contents kwargs i = Inl e)"
  then have "\<exists>e. backend ([] @ butlast candidates) (last candidates) contents (build_config kwargs) = Inl e \<and>
       fallback_loop backend contents kwargs candidates None [] = (Inl (Reraised e), [] @ candidates)"
    by (intro fallback_loop_all_fail) (simp_all add: attempt_outcome_def)
  with a show "\<exists>e. attempt_outcome backend candidates contents kwargs (length candidates - 1) = Inl e \<and>
         generate_content_with_fallback backend candidates contents kwargs
           = (Inl (Reraised e), candidates)"
    by (simp add: generate_content_with_fallback_def attempt_outcome_def butlast_conv_take
        last_conv_nth)
qed

theorem fallback_first_success_witness:
  "generate_content_with_fallback (\<lambda>tried model contents config. if model = ''gemini-1.5-flash'' then Inr (''answer of '' @ model) else Inl (''unavailable: '' @ model)) MODEL_CANDIDATES ''prompt'' [(''temperature'', ConfigNumber 0)]
     = (Inr ''answer of gemini-1.5-flash'',
        [''gemini-2.0-flash-exp'', ''gemini-1.5-pro'', ''gemini-1.5-flash'']) \<and>
   generate_content_with_fallback (\<lambda>tried model contents config. (Inl (''unavailable: '' @ model) :: string + string)) MODEL_CANDIDATES ''prompt'' [(''temperature'', ConfigNumber 0)]
     = (Inl (Reraised ''unavailable: gemini-2.5-flash-lite''), MODEL_CANDIDATES)"
proof -
  have len: "2 < length MODEL_CANDIDATES" by (simp add: MODEL_CANDIDATES_def)
  have fails: "\<forall>i<2. \<exists>e. attempt_outcome (\<lambda>tried model contents config. if model = ''gemini-1.5-flash'' then Inr (''answer of '' @ model) else Inl (''unavailable: '' @ model)) MODEL_CANDIDATES ''prompt'' [(''temperature'', ConfigNumber 0)] i = Inl e"
    by (simp add: attempt_outcome_def MODEL_CANDIDATES_def less_2_cases_iff)
  have ok: "attempt_outcome (\<lambda>tried model contents config. if model = ''gemini-1.5-flash'' then Inr (''answer of '' @ model) else Inl (''unavailable: '' @ model)) MODEL_CANDIDATES ''prompt'' [(''temperature'', ConfigNumber 0)] 2 = Inr ''answer of gemini-1.5-flash''"
    by (simp add: attempt_outcome_def MODEL_CANDIDATES_def)
  have ne: "MODEL_CANDIDATES \<noteq> []" by (simp add: MODEL_CANDIDATES_def)
  have all: "\<forall>i<length MODEL_CANDIDATES. \<exists>e. attempt_outcome (\<lambda>tried model contents config. (Inl (''unavailable: '' @ model) :: string + string)) MODEL_CANDIDATES ''prompt'' [(''temperature'', ConfigNumber 0)] i = Inl e"
    by (simp add: attempt_outcome_def)
  note th1 = fallback_first_success [of 2 MODEL_CANDIDATES "(\<lambda>tried model contents config. if model = ''gemini-1.5-flash'' then Inr (''answer of '' @ model) else Inl (''unavailable: '' @ model))" "''prompt''" "[(''temperature'', ConfigNumber 0)]" "''answer of gemini-1.5-flash''"]
  have w1: "generate_content_with_fallback (\<lambda>tried model contents config. if model = ''gemini-1.5-flash'' then Inr (''answer of '' @ model) else Inl (''unavailable: '' @ model)) MODEL_CANDIDATES ''prompt'' [(''temperature'', ConfigNumber 0)]
     = (Inr ''answer of gemini-1.5-flash'', take (Suc 2) MODEL_CANDIDATES)"
    by (rule mp [OF conjunct1 [OF th1]]) (intro conjI len fails ok)
  note th2 = fallback_first_success [of 0 MODEL_CANDIDATES "(\<lambda>tried model contents config. (Inl (''unavailable: '' @ model) :: string + string))" "''prompt''" "[(''temperature'', ConfigNumber 0)]"]
  have "\<exists>e. attempt_outcome (\<lambda>tried model contents config. (Inl (''unavailable: '' @ model) :: string + string)) MODEL_CANDIDATES ''prompt'' [(''temperature'', ConfigNumber 0)] (length MODEL_CANDIDATES - 1) = Inl e \<and>
      generate_content_with_fallback (\<lambda>tried model contents config. (Inl (''unavailable: '' @ model) :: string + string)) MODEL_CANDIDATES ''prompt'' [(''temperature'', ConfigNumber 0)]
        = (Inl (Reraised e), MODEL_CANDIDATES)"
    by (rule mp [OF conjunct2 [OF th2]]) (intro conjI ne all)
  then obtain e where e: "attempt_outcome (\<lambda>tried model contents config. (Inl (''unavailable: '' @ model) :: string + string)) MODEL_CANDIDATES ''prompt'' [(''temperature'', ConfigNumber 0)] (length MODEL_CANDIDATES - 1) = Inl e"
    and w2: "generate_content_with_fallback (\<lambda>tried model contents config. (Inl (''unavailable: '' @ model) :: string + string)) MODEL_CANDIDATES ''prompt'' [(''temperature'', ConfigNumber 0)]
        = (Inl (Reraised e), MODEL_CANDIDATES)"
    by blast
  from e have "e = ''unavailable: gemini-2.5-flash-lite''"
    by (simp add: attempt_outcome_def MODEL_CANDIDATES_def)
  with w1 w2 show ?thesis by (simp add: MODEL_CANDIDATES_def)
qed

section \<open>Properties of the fuzzy reference matcher\<close>













section \<open>Properties of the date parser and of the age recomputation\<close>

lemmas date_eval = parse_date_def date_formats_def strptime_def store_item_def in_range_def
  month_names_def is_leap_def days_in_month_def

lemma parse_examples:
  "parse_date ''15/06/1990'' = Some \<lparr>year = 1990, month = 6, day = 15\<rparr>"
  "parse_date ''10-Jan-2024'' = Some \<lparr>year = 2024, month = 1, day = 10\<rparr>"
  "parse_date ''20-Jul-2024'' = Some \<lparr>year = 2024, month = 7, day = 20\<rparr>"
  "parse_date ''not a date'' = None"
  by (simp_all add: date_eval py_eval)

lemma length_str_nat: "0 < k \<Longrightarrow> n < 10 ^ k \<Longrightarrow> length (str_nat n) \<le> k"
proof (induction k arbitrary: n)
  case 0
  then show ?case by simp
next
  case (Suc k)
  show ?case
  proof (cases "n < 10")
    case True
    then show ?thesis by (simp add: str_nat.simps [of n])
  next
    case False
    then have k: "0 < k" using Suc.prems by (cases k) auto
    from Suc.prems have "n div 10 < 10 ^ k" by (simp add: less_mult_imp_div_less mult.commute)
    from Suc.IH [OF k this] False show ?thesis by (simp add: str_nat.simps [of n])
  qed
qed

lemma py_str_int_small:
  "\<bar>n\<bar> < 100000 \<Longrightarrow>
   py_str_int n = Inr (if n < 0 then CHR ''-'' # str_nat (nat \<bar>n\<bar>) else str_nat (nat \<bar>n\<bar>))"
proof -
  assume "\<bar>n\<bar> < 100000"
  then have "nat \<bar>n\<bar> < 10 ^ 5" by simp
  from length_str_nat [OF _ this] have "length (str_nat (nat \<bar>n\<bar>)) \<le> 5" by simp
  then show ?thesis by (simp add: py_str_int_def max_str_digits_def Let_def)
qed

lemma item_alts_FYear_bound: "alt \<in> set (item_alts FYear s) \<Longrightarrow> fst alt \<le> 9999"
  by (auto simp: is_decimal_def digit_val_def split: list.splits if_splits)

lemma match_items_year:
  "fr \<in> set (match_items items s f) \<Longrightarrow> found_Y f \<le> 9999 \<Longrightarrow> found_Y (fst fr) \<le> 9999"
proof (induction items arbitrary: s f)
  case Nil
  then show ?case by simp
next
  case (Cons item items)
  from Cons.prems(1) obtain alt where alt: "alt \<in> set (item_alts item s)"
    and fr: "fr \<in> set (match_items items (snd alt) (store_item item (fst alt) f))"
    by auto
  have "found_Y (store_item item (fst alt) f) \<le> 9999"
    using Cons.prems(2) alt item_alts_FYear_bound [of alt s]
    by (cases item) (simp_all add: store_item_def)
  from Cons.IH [OF fr this] show ?case .
qed

lemma strptime_year: "strptime s fmt = Some d \<Longrightarrow> year d \<le> 9999"
proof -
  assume a: "strptime s fmt = Some d"
  let ?ms = "match_items (compile_format False fmt) s \<lparr>found_d = 1, found_m = 1, found_Y = 1900\<rparr>"
  from a obtain fr rest where ms: "?ms = fr # rest"
    by (cases ?ms) (auto simp: strptime_def)
  then have "fr \<in> set ?ms" by simp
  from match_items_year [OF this] have "found_Y (fst fr) \<le> 9999" by simp
  with a ms show ?thesis
    by (cases fr) (auto simp: strptime_def split: if_splits)
qed

lemma try_formats_year: "try_formats s fmts = Some d \<Longrightarrow> year d \<le> 9999"
  by (induction fmts) (auto split: option.splits dest: strptime_year)

lemma parse_date_year: "parse_date s = Some d \<Longrightarrow> year d \<le> 9999"
  by (simp add: parse_date_def try_formats_year)


lemma py_str_int_decimal: "\<bar>n\<bar> < 100000 \<Longrightarrow> py_str_int n = Inr (decimal_text n)"
  by (simp add: py_str_int_small decimal_text_def)

lemma strptime_valid:
  "strptime s fmt = Some d \<Longrightarrow> 1 \<le> month d \<and> month d \<le> 12 \<and> 1 \<le> day d \<and> day d \<le> 31"
  by (auto simp: strptime_def days_in_month_def split: list.splits if_splits prod.splits)

lemma try_formats_valid:
  "try_formats s fmts = Some d \<Longrightarrow> 1 \<le> month d \<and> month d \<le> 12 \<and> 1 \<le> day d \<and> day d \<le> 31"
  by (induction fmts) (auto split: option.splits dest: strptime_valid)

lemma parse_date_valid:
  "parse_date s = Some d \<Longrightarrow> 1 \<le> month d \<and> month d \<le> 12 \<and> 1 \<le> day d \<and> day d \<le> 31"
  unfolding parse_date_def by (rule try_formats_valid)

lemma parse_date_empty: "parse_date [] = None"
  by (simp add: date_eval py_eval)

lemma recalc_person_parsed:
  assumes get: "py_get person ''dob'' (JStr '''') = Inr (JStr s)"
    and pd: "parse_date s = Some d"
    and ty: "year today \<le> 9999"
  shows "recalc_person today person =
     py_setitem person ''age''
       (JStr (decimal_text
          (int (year today) - int (year d)
             - (if month today < month d \<or> (month today = month d \<and> day today < day d)
                then 1 else 0))))"
proof -
  from pd parse_date_empty have s: "s \<noteq> []" by auto
  from parse_date_year [OF pd] ty have "\<bar>precise_age today d\<bar> < 100000"
    unfolding precise_age_def by (cases "tuple_less (month today, day today) (month d, day d)") simp_all
  from py_str_int_decimal [OF this] get pd s show ?thesis
    by (simp add: recalc_person_def bind_exc_def precise_age_def tuple_less_def)
qed

lemma recalc_person_unparsed:
  assumes get: "py_get person ''dob'' (JStr '''') = Inr (JStr s)"
    and pd: "parse_date s = None"
  shows "recalc_person today person = Inr person"
  using assms by (simp add: recalc_person_def bind_exc_def)

lemma collect_exc_nth:
  "length ys = length xs \<Longrightarrow> (\<forall>i<length xs. f (xs ! i) = Inr (ys ! i)) \<Longrightarrow>
   collect_exc (map f xs) = Inr ys"
proof (induction xs arbitrary: ys)
  case Nil
  then show ?case by simp
next
  case (Cons x xs)
  then obtain y ys' where ys: "ys = y # ys'" by (cases ys) auto
  from Cons.prems(2) have "f ((x # xs) ! 0) = Inr (ys ! 0)" by blast
  with ys have x: "f x = Inr y" by simp
  have "\<forall>i<length xs. f (xs ! i) = Inr (ys' ! i)"
  proof (intro allI impI)
    fix i assume "i < length xs"
    then have "Suc i < length (x # xs)" by simp
    with Cons.prems(2) have "f ((x # xs) ! Suc i) = Inr (ys ! Suc i)" by blast
    with ys show "f (xs ! i) = Inr (ys' ! i)" by simp
  qed
  with Cons.IH [of ys'] Cons.prems(1) ys have "collect_exc (map f xs) = Inr ys'" by simp
  with x ys show ?case by simp
qed

lemma recalc_ages_document:
  assumes "map_of kvs ''policy_holders'' = Some (JArr persons)"
    and "length persons' = length persons"
    and "\<forall>i<length persons. recalc_person today (persons ! i) = Inr (persons' ! i)"
  shows "recalc_ages today (JObj kvs)
     = Inr (JObj (AList.update ''policy_holders'' (JArr persons') kvs))"
  using assms(1) collect_exc_nth [OF assms(2,3)]
  by (simp add: recalc_ages_def bind_exc_def)

lemma recalc_ages_examples:
  "recalc_ages \<lparr>year = 2024, month = 1, day = 10\<rparr>
     (JObj [(''policy_holders'', JArr [JObj [(''name'', JStr ''Asha''), (''dob'', JStr ''15/06/1990''), (''age'', JStr ''40'')], JObj [(''name'', JStr ''Ravi''), (''dob'', JStr ''June 1988''), (''age'', JStr ''41'')]])])
   = Inr (JObj [(''policy_holders'', JArr [JObj [(''name'', JStr ''Asha''), (''dob'', JStr ''15/06/1990''), (''age'', JStr ''33'')], JObj [(''name'', JStr ''Ravi''), (''dob'', JStr ''June 1988''), (''age'', JStr ''41'')]])])"
  "recalc_ages \<lparr>year = 2024, month = 7, day = 20\<rparr>
     (JObj [(''policy_holders'', JArr [JObj [(''name'', JStr ''Asha''), (''dob'', JStr ''15/06/1990''), (''age'', JStr ''40'')], JObj [(''name'', JStr ''Ravi''), (''dob'', JStr ''June 1988''), (''age'', JStr ''41'')]])])
   = Inr (JObj [(''policy_holders'', JArr [JObj [(''name'', JStr ''Asha''), (''dob'', JStr ''15/06/1990''), (''age'', JStr ''34'')], JObj [(''name'', JStr ''Ravi''), (''dob'', JStr ''June 1988''), (''age'', JStr ''41'')]])])"
  by (simp_all add: recalc_ages_def recalc_person_def bind_exc_def precise_age_def tuple_less_def
      date_eval py_eval)


text \<open>
  C4.  For a person record whose \<open>dob\<close> is a string that one of the five formats parses
  (and a current date within the calendar), the recomputation sets \<open>age\<close> to the decimal
  text of \<open>current_year - birth_year\<close>, less one exactly when the current (month, day) comes
  before the birth (month, day) in lexicographic order; when no format parses, the record
  is returned as it was.  The document comes back with each person replaced by its
  recomputed record.  The birth date \<open>15/06/1990\<close> gives the age 33 on \<open>10-Jan-2024\<close> and 34
  on \<open>20-Jul-2024\<close>, while the record next to it, whose \<open>dob\<close> does not parse, keeps the age
  the model reported.
\<close>

theorem age_recomputation:
  "(py_get person ''dob'' (JStr '''') = Inr (JStr s) \<and> parse_date s = Some d \<and> year today \<le> 9999 \<longrightarrow>
      recalc_person today person =
        py_setitem person ''age''
          (JStr (decimal_text
             (int (year today) - int (year d)
                - (if month today < month d \<or> (month today = month d \<and> day today < day d)
                   then 1 else 0))))) \<and>
   (py_get person ''dob'' (JStr '''') = Inr (JStr s) \<and> parse_date s = None \<longrightarrow>
      recalc_person today person = Inr person) \<and>
   (map_of kvs ''policy_holders'' = Some (JArr persons) \<and> length persons' = length persons \<and>
    (\<forall>i<length persons. recalc_person today (persons ! i) = Inr (persons' ! i)) \<longrightarrow>
      recalc_ages today (JObj kvs)
        = Inr (JObj (AList.update ''policy_holders'' (JArr persons') kvs))) \<and>
   parse_date ''15/06/1990'' = Some \<lparr>year = 1990, month = 6, day = 15\<rparr> \<and>
   parse_date ''10-Jan-2024'' = Some \<lparr>year = 2024, month = 1, day = 10\<rparr> \<and>
   parse_date ''20-Jul-2024'' = Some \<lparr>year = 2024, month = 7, day = 20\<rparr> \<and>
   recalc_ages \<lparr>year = 2024, month = 1, day = 10\<rparr>
     (JObj [(''policy_holders'', JArr [JObj [(''name'', JStr ''Asha''), (''dob'', JStr ''15/06/1990''), (''age'', JStr ''40'')], JObj [(''name'', JStr ''Ravi''), (''dob'', JStr ''June 1988''), (''age'', JStr ''41'')]])])
     = Inr (JObj [(''policy_holders'', JArr [JObj [(''name'', JStr ''Asha''), (''dob'', JStr ''15/06/1990''), (''age'', JStr ''33'')], JObj [(''name'', JStr ''Ravi''), (''dob'', JStr ''June 1988''), (''age'', JStr ''41'')]])]) \<and>
   recalc_ages \<lparr>year = 2024, month = 7, day = 20\<rparr>
     (JObj [(''policy_holders'', JArr [JObj [(''name'', JStr ''Asha''), (''dob'', JStr ''15/06/1990''), (''age'', JStr ''40'')], JObj [(''name'', JStr ''Ravi''), (''dob'', JStr ''June 1988''), (''age'', JStr ''41'')]])])
     = Inr (JObj [(''policy_holders'', JArr [JObj [(''name'', JStr ''Asha''), (''dob'', JStr ''15/06/1990''), (''age'', JStr ''34'')], JObj [(''name'', JStr ''Ravi''), (''dob'', JStr ''June 1988''), (''age'', JStr ''41'')]])])"
  using recalc_person_parsed [of person s d today] recalc_person_unparsed [of person s today]
    recalc_ages_document [of kvs persons persons' today]
    parse_examples(1,2,3) recalc_ages_examples
  by (intro conjI impI) simp_all

theorem age_recomputation_witness:
  "recalc_person \<lparr>year = 2024, month = 1, day = 10\<rparr> (JObj [(''name'', JStr ''Asha''), (''dob'', JStr ''15/06/1990''), (''age'', JStr ''40'')])
     = Inr (JObj [(''name'', JStr ''Asha''), (''dob'', JStr ''15/06/1990''), (''age'', JStr ''33'')]) \<and>
   recalc_person \<lparr>year = 2024, month = 1, day = 10\<rparr> (JObj [(''name'', JStr ''Ravi''), (''dob'', JStr ''June 1988''), (''age'', JStr ''41'')])
     = Inr (JObj [(''name'', JStr ''Ravi''), (''dob'', JStr ''June 1988''), (''age'', JStr ''41'')]) \<and>
   recalc_ages \<lparr>year = 2024, month = 1, day = 10\<rparr> (JObj [(''insurer'', JStr ''Acme''), (''policy_holders'', JArr [JObj [(''name'', JStr ''Asha''), (''dob'', JStr ''15/06/1990''), (''age'', JStr ''40'')], JObj [(''name'', JStr ''Ravi''), (''dob'', JStr ''June 1988''), (''age'', JStr ''41'')]])])
     = Inr (JObj [(''insurer'', JStr ''Acme''), (''policy_holders'', JArr [JObj [(''name'', JStr ''Asha''), (''dob'', JStr ''15/06/1990''), (''age'', JStr ''33'')], JObj [(''name'', JStr ''Ravi''), (''dob'', JStr ''June 1988''), (''age'', JStr ''41'')]])])"
proof -
  note th = age_recomputation [of "JObj [(''name'', JStr ''Asha''), (''dob'', JStr ''15/06/1990''), (''age'', JStr ''40'')]" "''15/06/1990''" "\<lparr>year = 1990, month = 6, day = 15\<rparr>" "\<lparr>year = 2024, month = 1, day = 10\<rparr>"
      "[(''insurer'', JStr ''Acme''), (''policy_holders'', JArr [JObj [(''name'', JStr ''Asha''), (''dob'', JStr ''15/06/1990''), (''age'', JStr ''40'')], JObj [(''name'', JStr ''Ravi''), (''dob'', JStr ''June 1988''), (''age'', JStr ''41'')]])]"
      "[JObj [(''name'', JStr ''Asha''), (''dob'', JStr ''15/06/1990''), (''age'', JStr ''40'')], JObj [(''name'', JStr ''Ravi''), (''dob'', JStr ''June 1988''), (''age'', JStr ''41'')]]" "[JObj [(''name'', JStr ''Asha''), (''dob'', JStr ''15/06/1990''), (''age'', JStr ''33'')], JObj [(''name'', JStr ''Ravi''), (''dob'', JStr ''June 1988''), (''age'', JStr ''41'')]]"]
  note th2 = age_recomputation [of "JObj [(''name'', JStr ''Ravi''), (''dob'', JStr ''June 1988''), (''age'', JStr ''41'')]" "''June 1988''" "\<lparr>year = 1990, month = 6, day = 15\<rparr>" "\<lparr>year = 2024, month = 1, day = 10\<rparr>" "[]" "[]" "[]"]
  have g1: "py_get (JObj [(''name'', JStr ''Asha''), (''dob'', JStr ''15/06/1990''), (''age'', JStr ''40'')]) ''dob'' (JStr '''') = Inr (JStr ''15/06/1990'')" by simp
  have pd1: "parse_date ''15/06/1990'' = Some \<lparr>year = 1990, month = 6, day = 15\<rparr>" by (rule parse_examples(1))
  have ty: "year \<lparr>year = 2024, month = 1, day = 10\<rparr> \<le> 9999" by simp
  have "recalc_person \<lparr>year = 2024, month = 1, day = 10\<rparr> (JObj [(''name'', JStr ''Asha''), (''dob'', JStr ''15/06/1990''), (''age'', JStr ''40'')]) =
        py_setitem (JObj [(''name'', JStr ''Asha''), (''dob'', JStr ''15/06/1990''), (''age'', JStr ''40'')]) ''age''
          (JStr (decimal_text
             (int (year \<lparr>year = 2024, month = 1, day = 10\<rparr>) - int (year \<lparr>year = 1990, month = 6, day = 15\<rparr>)
                - (if month \<lparr>year = 2024, month = 1, day = 10\<rparr> < month \<lparr>year = 1990, month = 6, day = 15\<rparr> \<or> (month \<lparr>year = 2024, month = 1, day = 10\<rparr> = month \<lparr>year = 1990, month = 6, day = 15\<rparr> \<and> day \<lparr>year = 2024, month = 1, day = 10\<rparr> < day \<lparr>year = 1990, month = 6, day = 15\<rparr>)
                   then 1 else 0))))"
    by (rule mp [OF conjunct1 [OF th]]) (intro conjI g1 pd1 ty)
  then have w1: "recalc_person \<lparr>year = 2024, month = 1, day = 10\<rparr> (JObj [(''name'', JStr ''Asha''), (''dob'', JStr ''15/06/1990''), (''age'', JStr ''40'')]) = Inr (JObj [(''name'', JStr ''Asha''), (''dob'', JStr ''15/06/1990''), (''age'', JStr ''33'')])"
    by (simp add: decimal_text_def py_eval)
  have g2: "py_get (JObj [(''name'', JStr ''Ravi''), (''dob'', JStr ''June 1988''), (''age'', JStr ''41'')]) ''dob'' (JStr '''') = Inr (JStr ''June 1988'')" by simp
  have pd2: "parse_date ''June 1988'' = None" by (simp add: date_eval py_eval)
  have w2: "recalc_person \<lparr>year = 2024, month = 1, day = 10\<rparr> (JObj [(''name'', JStr ''Ravi''), (''dob'', JStr ''June 1988''), (''age'', JStr ''41'')]) = Inr (JObj [(''name'', JStr ''Ravi''), (''dob'', JStr ''June 1988''), (''age'', JStr ''41'')])"
    by (rule mp [OF conjunct1 [OF conjunct2 [OF th2]]]) (intro conjI g2 pd2)
  have m: "map_of [(''insurer'', JStr ''Acme''), (''policy_holders'', JArr [JObj [(''name'', JStr ''Asha''), (''dob'', JStr ''15/06/1990''), (''age'', JStr ''40'')], JObj [(''name'', JStr ''Ravi''), (''dob'', JStr ''June 1988''), (''age'', JStr ''41'')]])] ''policy_holders''
      = Some (JArr [JObj [(''name'', JStr ''Asha''), (''dob'', JStr ''15/06/1990''), (''age'', JStr ''40'')], JObj [(''name'', JStr ''Ravi''), (''dob'', JStr ''June 1988''), (''age'', JStr ''41'')]])" by simp
  have len: "length [JObj [(''name'', JStr ''Asha''), (''dob'', JStr ''15/06/1990''), (''age'', JStr ''33'')], JObj [(''name'', JStr ''Ravi''), (''dob'', JStr ''June 1988''), (''age'', JStr ''41'')]] = length [JObj [(''name'', JStr ''Asha''), (''dob'', JStr ''15/06/1990''), (''age'', JStr ''40'')], JObj [(''name'', JStr ''Ravi''), (''dob'', JStr ''June 1988''), (''age'', JStr ''41'')]]" by simp
  have each: "\<forall>i<length [JObj [(''name'', JStr ''Asha''), (''dob'', JStr ''15/06/1990''), (''age'', JStr ''40'')], JObj [(''name'', JStr ''Ravi''), (''dob'', JStr ''June 1988''), (''age'', JStr ''41'')]]. recalc_person \<lparr>year = 2024, month = 1, day = 10\<rparr> ([JObj [(''name'', JStr ''Asha''), (''dob'', JStr ''15/06/1990''), (''age'', JStr ''40'')], JObj [(''name'', JStr ''Ravi''), (''dob'', JStr ''June 1988''), (''age'', JStr ''41'')]] ! i) = Inr ([JObj [(''name'', JStr ''Asha''), (''dob'', JStr ''15/06/1990''), (''age'', JStr ''33'')], JObj [(''name'', JStr ''Ravi''), (''dob'', JStr ''June 1988''), (''age'', JStr ''41'')]] ! i)"
    using w1 w2 by (auto simp: less_Suc_eq)
  have "recalc_ages \<lparr>year = 2024, month = 1, day = 10\<rparr> (JObj [(''insurer'', JStr ''Acme''), (''policy_holders'', JArr [JObj [(''name'', JStr ''Asha''), (''dob'', JStr ''15/06/1990''), (''age'', JStr ''40'')], JObj [(''name'', JStr ''Ravi''), (''dob'', JStr ''June 1988''), (''age'', JStr ''41'')]])])
      = Inr (JObj (AList.update ''policy_holders'' (JArr [JObj [(''name'', JStr ''Asha''), (''dob'', JStr ''15/06/1990''), (''age'', JStr ''33'')], JObj [(''name'', JStr ''Ravi''), (''dob'', JStr ''June 1988''), (''age'', JStr ''41'')]])
             [(''insurer'', JStr ''Acme''), (''policy_holders'', JArr [JObj [(''name'', JStr ''Asha''), (''dob'', JStr ''15/06/1990''), (''age'', JStr ''40'')], JObj [(''name'', JStr ''Ravi''), (''dob'', JStr ''June 1988''), (''age'', JStr ''41'')]])]))"
    by (rule mp [OF conjunct1 [OF conjunct2 [OF conjunct2 [OF th]]]]) (intro conjI m len each)
  then have w3: "recalc_ages \<lparr>year = 2024, month = 1, day = 10\<rparr> (JObj [(''insurer'', JStr ''Acme''), (''policy_holders'', JArr [JObj [(''name'', JStr ''Asha''), (''dob'', JStr ''15/06/1990''), (''age'', JStr ''40'')], JObj [(''name'', JStr ''Ravi''), (''dob'', JStr ''June 1988''), (''age'', JStr ''41'')]])])
     = Inr (JObj [(''insurer'', JStr ''Acme''), (''policy_holders'', JArr [JObj [(''name'', JStr ''Asha''), (''dob'', JStr ''15/06/1990''), (''age'', JStr ''33'')], JObj [(''name'', JStr ''Ravi''), (''dob'', JStr ''June 1988''), (''age'', JStr ''41'')]])])"
    by simp
  from w1 w2 w3 show ?thesis by (intro conjI)
qed

section \<open>Properties of the tenure computation\<close>

lemma calculate_tenure_parsed:
  assumes det: "py_get data ''policy_details'' (JObj []) = Inr details"
    and get: "py_get details ''start_date'' (JStr '''') = Inr (JStr s)"
    and pd: "parse_date s = Some d"
    and ty: "year today \<le> 9999" and tm: "month today \<le> 12"
  shows "calculate_tenure today data =
     Inr (decimal_text (int (year today) - int (year d) - (if month today < month d then 1 else 0))
          @ '' Years ''
          @ decimal_text (if month today < month d
                          then int (month today) - int (month d) + 12
                          else int (month today) - int (month d))
          @ '' Months'')"
proof -
  from pd parse_date_empty have s: "s \<noteq> []" by auto
  from parse_date_year [OF pd] have dy: "year d \<le> 9999" .
  from parse_date_valid [OF pd] have dm: "month d \<le> 12" by simp
  show ?thesis
  proof (cases "month today < month d")
    case True
    have "\<bar>int (year today) - int (year d) - 1\<bar> < 100000"
      "\<bar>int (month today) - int (month d) + 12\<bar> < 100000"
      using ty dy tm dm by simp_all
    then have "py_str_int (int (year today) - int (year d) - 1)
        = Inr (decimal_text (int (year today) - int (year d) - 1))"
      "py_str_int (int (month today) - int (month d) + 12)
        = Inr (decimal_text (int (month today) - int (month d) + 12))"
      by (simp_all add: py_str_int_decimal)
    with True det get pd s show ?thesis
      by (simp add: calculate_tenure_def bind_exc_def Let_def)
  next
    case False
    have "\<bar>int (year today) - int (year d)\<bar> < 100000"
      "\<bar>int (month today) - int (month d)\<bar> < 100000"
      using ty dy tm dm by simp_all
    then have "py_str_int (int (year today) - int (year d))
        = Inr (decimal_text (int (year today) - int (year d)))"
      "py_str_int (int (month today) - int (month d))
        = Inr (decimal_text (int (month today) - int (month d)))"
      by (simp_all add: py_str_int_decimal)
    with False det get pd s show ?thesis
      by (simp add: calculate_tenure_def bind_exc_def Let_def)
  qed
qed

lemma calculate_tenure_unparsed:
  assumes "py_get data ''policy_details'' (JObj []) = Inr details"
    and "py_get details ''start_date'' (JStr '''') = Inr (JStr s)"
    and "parse_date s = None"
  shows "calculate_tenure today data = Inr ''Unknown''"
  using assms by (simp add: calculate_tenure_def bind_exc_def)

lemma tenure_parse_example: "parse_date ''15/06/2020'' = Some \<lparr>year = 2020, month = 6, day = 15\<rparr>"
  by (simp add: date_eval py_eval)

lemma calculate_tenure_examples:
  "calculate_tenure \<lparr>year = 2024, month = 7, day = 10\<rparr> (JObj [(''company'', JStr ''Acme''), (''policy_details'', JObj [(''start_date'', JStr ''15/06/2020'')])]) = Inr ''4 Years 1 Months''"
  "calculate_tenure \<lparr>year = 2024, month = 3, day = 20\<rparr> (JObj [(''company'', JStr ''Acme''), (''policy_details'', JObj [(''start_date'', JStr ''15/06/2020'')])]) = Inr ''3 Years 9 Months''"
  "calculate_tenure \<lparr>year = 2024, month = 7, day = 10\<rparr> (JObj [(''company'', JStr ''Acme''), (''policy_details'', JObj [(''start_date'', JStr ''last summer'')])]) = Inr ''Unknown''"
  by (simp_all add: calculate_tenure_def bind_exc_def date_eval py_eval)

lemma tenure_by_day_borrow_example:
  "tenure_by_day_borrow \<lparr>year = 2024, month = 7, day = 10\<rparr> \<lparr>year = 2020, month = 6, day = 15\<rparr> = ''3 Years 1 Months''"
  by (simp add: tenure_by_day_borrow_def decimal_text_def py_eval)

text \<open>
  C6, as stated, fails.  The policy started on \<open>15/06/2020\<close> and today is 10 July 2024: the
  day-of-month difference is negative, so the stated rule borrows a year and gives
  \<open>3 Years 1 Months\<close>; the code returns \<open>4 Years 1 Months\<close>.
\<close>

theorem tenure_day_borrow_counterexample:
  "parse_date ''15/06/2020'' = Some \<lparr>year = 2020, month = 6, day = 15\<rparr> \<and>
   int (day \<lparr>year = 2024, month = 7, day = 10\<rparr>) - int (day \<lparr>year = 2020, month = 6, day = 15\<rparr>) < 0 \<and>
   tenure_by_day_borrow \<lparr>year = 2024, month = 7, day = 10\<rparr> \<lparr>year = 2020, month = 6, day = 15\<rparr> = ''3 Years 1 Months'' \<and>
   calculate_tenure \<lparr>year = 2024, month = 7, day = 10\<rparr> (JObj [(''company'', JStr ''Acme''), (''policy_details'', JObj [(''start_date'', JStr ''15/06/2020'')])]) = Inr ''4 Years 1 Months'' \<and>
   calculate_tenure \<lparr>year = 2024, month = 7, day = 10\<rparr> (JObj [(''company'', JStr ''Acme''), (''policy_details'', JObj [(''start_date'', JStr ''15/06/2020'')])]) \<noteq> Inr (tenure_by_day_borrow \<lparr>year = 2024, month = 7, day = 10\<rparr> \<lparr>year = 2020, month = 6, day = 15\<rparr>)"
  using tenure_parse_example calculate_tenure_examples(1) tenure_by_day_borrow_example
  by simp

text \<open>
  C6, amended.  For a start date that is a string one of the five formats parses (and a
  current date within the calendar), the tenure is \<open><N> Years <M> Months\<close> where \<open>M\<close> is the
  calendar-month difference and \<open>N\<close> the calendar-year difference, one year being borrowed,
  and 12 added to the months, exactly when the calendar-month difference is negative; the
  day of the month plays no part.  When the string does not parse, the tenure is
  \<open>Unknown\<close>.
\<close>

theorem tenure_recomputation:
  "(py_get data ''policy_details'' (JObj []) = Inr details \<and>
    py_get details ''start_date'' (JStr '''') = Inr (JStr s) \<and>
    parse_date s = Some d \<and> year today \<le> 9999 \<and> month today \<le> 12 \<longrightarrow>
      calculate_tenure today data =
        Inr (decimal_text (int (year today) - int (year d) - (if month today < month d then 1 else 0))
             @ '' Years ''
             @ decimal_text (if month today < month d
                             then int (month today) - int (month d) + 12
                             else int (month today) - int (month d))
             @ '' Months'')) \<and>
   (py_get data ''policy_details'' (JObj []) = Inr details \<and>
    py_get details ''start_date'' (JStr '''') = Inr (JStr s) \<and>
    parse_date s = None \<longrightarrow>
      calculate_tenure today data = Inr ''Unknown'') \<and>
   calculate_tenure \<lparr>year = 2024, month = 7, day = 10\<rparr> (JObj [(''company'', JStr ''Acme''), (''policy_details'', JObj [(''start_date'', JStr ''15/06/2020'')])]) = Inr ''4 Years 1 Months'' \<and>
   calculate_tenure \<lparr>year = 2024, month = 3, day = 20\<rparr> (JObj [(''company'', JStr ''Acme''), (''policy_details'', JObj [(''start_date'', JStr ''15/06/2020'')])]) = Inr ''3 Years 9 Months'' \<and>
   calculate_tenure \<lparr>year = 2024, month = 7, day = 10\<rparr> (JObj [(''company'', JStr ''Acme''), (''policy_details'', JObj [(''start_date'', JStr ''last summer'')])]) = Inr ''Unknown''"
  using calculate_tenure_parsed [of data details s d today]
    calculate_tenure_unparsed [of data details s today] calculate_tenure_examples
  by (intro conjI impI) simp_all

theorem tenure_recomputation_witness:
  "calculate_tenure \<lparr>year = 2024, month = 3, day = 20\<rparr> (JObj [(''company'', JStr ''Acme''), (''policy_details'', JObj [(''start_date'', JStr ''15/06/2020'')])]) = Inr ''3 Years 9 Months'' \<and>
   calculate_tenure \<lparr>year = 2024, month = 3, day = 20\<rparr> (JObj [(''company'', JStr ''Acme''), (''policy_details'', JObj [(''start_date'', JStr ''last summer'')])]) = Inr ''Unknown''"
proof -
  note th = tenure_recomputation [of "(JObj [(''company'', JStr ''Acme''), (''policy_details'', JObj [(''start_date'', JStr ''15/06/2020'')])])" "(JObj [(''start_date'', JStr ''15/06/2020'')])" "''15/06/2020''" "\<lparr>year = 2020, month = 6, day = 15\<rparr>" "\<lparr>year = 2024, month = 3, day = 20\<rparr>"]
  note th2 = tenure_recomputation [of "(JObj [(''company'', JStr ''Acme''), (''policy_details'', JObj [(''start_date'', JStr ''last summer'')])])" "(JObj [(''start_date'', JStr ''last summer'')])" "''last summer''" "\<lparr>year = 2020, month = 6, day = 15\<rparr>" "\<lparr>year = 2024, month = 3, day = 20\<rparr>"]
  have g1: "py_get (JObj [(''company'', JStr ''Acme''), (''policy_details'', JObj [(''start_date'', JStr ''15/06/2020'')])]) ''policy_details'' (JObj []) = Inr (JObj [(''start_date'', JStr ''15/06/2020'')])" by simp
  have g2: "py_get (JObj [(''start_date'', JStr ''15/06/2020'')]) ''start_date'' (JStr '''') = Inr (JStr ''15/06/2020'')" by simp
  have ty: "year \<lparr>year = 2024, month = 3, day = 20\<rparr> \<le> 9999" by simp
  have tm: "month \<lparr>year = 2024, month = 3, day = 20\<rparr> \<le> 12" by simp
  have "calculate_tenure \<lparr>year = 2024, month = 3, day = 20\<rparr> (JObj [(''company'', JStr ''Acme''), (''policy_details'', JObj [(''start_date'', JStr ''15/06/2020'')])]) =
        Inr (decimal_text (int (year \<lparr>year = 2024, month = 3, day = 20\<rparr>) - int (year \<lparr>year = 2020, month = 6, day = 15\<rparr>) - (if month \<lparr>year = 2024, month = 3, day = 20\<rparr> < month \<lparr>year = 2020, month = 6, day = 15\<rparr> then 1 else 0))
             @ '' Years ''
             @ decimal_text (if month \<lparr>year = 2024, month = 3, day = 20\<rparr> < month \<lparr>year = 2020, month = 6, day = 15\<rparr>
                             then int (month \<lparr>year = 2024, month = 3, day = 20\<rparr>) - int (month \<lparr>year = 2020, month = 6, day = 15\<rparr>) + 12
                             else int (month \<lparr>year = 2024, month = 3, day = 20\<rparr>) - int (month \<lparr>year = 2020, month = 6, day = 15\<rparr>))
             @ '' Months'')"
    by (rule mp [OF conjunct1 [OF th]]) (intro conjI g1 g2 tenure_parse_example ty tm)
  then have w1: "calculate_tenure \<lparr>year = 2024, month = 3, day = 20\<rparr> (JObj [(''company'', JStr ''Acme''), (''policy_details'', JObj [(''start_date'', JStr ''15/06/2020'')])]) = Inr ''3 Years 9 Months''"
    by (simp add: decimal_text_def py_eval)
  have b1: "py_get (JObj [(''company'', JStr ''Acme''), (''policy_details'', JObj [(''start_date'', JStr ''last summer'')])]) ''policy_details'' (JObj []) = Inr (JObj [(''start_date'', JStr ''last summer'')])" by simp
  have b2: "py_get (JObj [(''start_date'', JStr ''last summer'')]) ''start_date'' (JStr '''') = Inr (JStr ''last summer'')" by simp
  have b3: "parse_date ''last summer'' = None" by (simp add: date_eval py_eval)
  have w2: "calculate_tenure \<lparr>year = 2024, month = 3, day = 20\<rparr> (JObj [(''company'', JStr ''Acme''), (''policy_details'', JObj [(''start_date'', JStr ''last summer'')])]) = Inr ''Unknown''"
    by (rule mp [OF conjunct1 [OF conjunct2 [OF th2]]]) (intro conjI b1 b2 b3)
  from w1 w2 show ?thesis by (intro conjI)
qed

end
